theory Spec2Isabelle
  imports Complex_Main "HOL-Library.Multiset"
begin

text \<open>
  The ingest pipeline of the LUNA testbench: the parsers of sensor logs, the import of the
  run registry and of labels, and the reconciliation of a log file with its registry
  entry, as functions on an explicit database and file system. The first part embeds the
  Python sources; the second part proves the properties of the specification, each with
  an example that is evaluated.
\<close>

section \<open>Python values used by the services\<close>

subsection \<open>Strings\<close>

text \<open>
  Strings are lists of 8-bit characters: the model covers ASCII text. Whitespace is what
  \<^verbatim>\<open>str.strip\<close>, \<^verbatim>\<open>str.isspace\<close> and the regular expression
  class \<^verbatim>\<open>\s\<close> accept in that range.
\<close>

definition py_isspace :: "char \<Rightarrow> bool" where
  "py_isspace c \<longleftrightarrow> c \<in> set [CHR 0x20, CHR 0x09, CHR 0x0A, CHR 0x0B, CHR 0x0C, CHR 0x0D,
                                 CHR 0x1C, CHR 0x1D, CHR 0x1E, CHR 0x1F]"

definition py_isdigit :: "char \<Rightarrow> bool" where
  "py_isdigit c \<longleftrightarrow> c \<in> set ''0123456789''"

definition rstrip_by :: "(char \<Rightarrow> bool) \<Rightarrow> string \<Rightarrow> string" where
  "rstrip_by p s = rev (dropWhile p (rev s))"

definition py_strip :: "string \<Rightarrow> string" where
  "py_strip s = rstrip_by py_isspace (dropWhile py_isspace s)"

text \<open>SQLite's one-argument \<^verbatim>\<open>TRIM\<close> removes spaces only; \<^verbatim>\<open>TRIM(NULL)\<close> is NULL.\<close>

definition sql_trim :: "string option \<Rightarrow> string option" where
  "sql_trim v = map_option (\<lambda>s. rstrip_by (\<lambda>c. c = CHR '' '') (dropWhile (\<lambda>c. c = CHR '' '') s)) v"

definition lower_char :: "char \<Rightarrow> char" where
  "lower_char c =
     (case map_of (zip ''ABCDEFGHIJKLMNOPQRSTUVWXYZ'' ''abcdefghijklmnopqrstuvwxyz'') c of
        Some l \<Rightarrow> l | None \<Rightarrow> c)"

definition py_lower :: "string \<Rightarrow> string" where
  "py_lower s = map lower_char s"

definition endswith :: "string \<Rightarrow> string \<Rightarrow> bool" where
  "endswith s suffix \<longleftrightarrow> length suffix \<le> length s \<and> drop (length s - length suffix) s = suffix"

text \<open>\<^verbatim>\<open>s.replace(old, new)\<close> for a one-character \<^verbatim>\<open>old\<close>.\<close>

definition replace_char :: "char \<Rightarrow> string \<Rightarrow> string \<Rightarrow> string" where
  "replace_char old new s = concat (map (\<lambda>c. if c = old then new else [c]) s)"

fun split_on :: "char \<Rightarrow> string \<Rightarrow> string list" where
  "split_on sep [] = [[]]"
| "split_on sep (c # cs) =
     (if c = sep then [] # split_on sep cs
      else (case split_on sep cs of [] \<Rightarrow> [[c]] | w # ws \<Rightarrow> (c # w) # ws))"

fun join_with :: "string \<Rightarrow> string list \<Rightarrow> string" where
  "join_with sep [] = []"
| "join_with sep [w] = w"
| "join_with sep (w # ws) = w @ sep @ join_with sep ws"

subsection \<open>Integers and their decimal text\<close>

definition digit_char :: "nat \<Rightarrow> char" where
  "digit_char d = ''0123456789'' ! (d mod 10)"

definition digit_val :: "char \<Rightarrow> int" where
  "digit_val c = (case map_of (zip ''0123456789'' [0, 1, 2, 3, 4, 5, 6, 7, 8, 9]) c of Some d \<Rightarrow> d | None \<Rightarrow> 0)"

fun str_nat :: "nat \<Rightarrow> string" where
  "str_nat n = (if n < 10 then [digit_char n] else str_nat (n div 10) @ [digit_char (n mod 10)])"

definition str_int :: "int \<Rightarrow> string" where
  "str_int i = (if i < 0 then CHR ''-'' # str_nat (nat (- i)) else str_nat (nat i))"

text \<open>Zero padding to a width, as the format codes \<^verbatim>\<open>%02d\<close> and \<^verbatim>\<open>%04d\<close>.\<close>

definition zpad :: "nat \<Rightarrow> int \<Rightarrow> string" where
  "zpad w i = (let s = str_nat (nat i) in replicate (w - length s) CHR ''0'' @ s)"

definition int_of_digits :: "string \<Rightarrow> int" where
  "int_of_digits s = foldl (\<lambda>acc c. 10 * acc + digit_val c) 0 s"

text \<open>
  \<^verbatim>\<open>int(s)\<close> in base 10: surrounding whitespace, one optional sign, digits with
  single underscores between them, and at most 4300 digits (the interpreter's default
  limit). \<open>None\<close> stands for the \<^verbatim>\<open>ValueError\<close>.
\<close>

fun digits_underscored :: "string \<Rightarrow> bool" where
  "digits_underscored [] = False"
| "digits_underscored [c] = py_isdigit c"
| "digits_underscored (c # d # cs) =
     (py_isdigit c \<and> (if d = CHR ''_'' then digits_underscored cs else digits_underscored (d # cs)))"

definition py_int :: "string \<Rightarrow> int option" where
  "py_int s =
     (let t = py_strip s;
          (neg, body) = (case t of
                           c # cs \<Rightarrow> if c = CHR ''-'' then (True, cs)
                                     else if c = CHR ''+'' then (False, cs) else (False, t)
                         | [] \<Rightarrow> (False, t));
          ds = filter (\<lambda>c. c \<noteq> CHR ''_'') body
      in if digits_underscored body \<and> length ds \<le> 4300
         then Some (if neg then - int_of_digits ds else int_of_digits ds)
         else None)"

text \<open>Python's \<^verbatim>\<open>repr\<close> of a list of plain strings, as an f-string prints it.\<close>

definition repr_str_list :: "string list \<Rightarrow> string" where
  "repr_str_list xs = ''['' @ join_with '', '' (map (\<lambda>x. [CHR 0x27] @ x @ [CHR 0x27]) xs) @ '']''"

subsection \<open>Paths (pathlib)\<close>

definition path_parts :: "string \<Rightarrow> string list" where
  "path_parts p = filter (\<lambda>c. c \<noteq> [] \<and> c \<noteq> ''.'') (split_on CHR ''/'' p)"

definition path_name :: "string \<Rightarrow> string" where
  "path_name p = (case rev (path_parts p) of [] \<Rightarrow> [] | n # _ \<Rightarrow> n)"

text \<open>\<^verbatim>\<open>PurePath.suffix\<close>: from the last dot of the name, when that dot is neither first nor last.\<close>

definition path_suffix :: "string \<Rightarrow> string" where
  "path_suffix p =
     (let name = path_name p;
          after = takeWhile (\<lambda>c. c \<noteq> CHR ''.'') (rev name)
      in if CHR ''.'' \<in> set name \<and> after \<noteq> [] \<and> length after + 1 < length name
         then drop (length name - length after - 1) name else [])"

definition path_str :: "string \<Rightarrow> string" where
  "path_str p =
     (let body = join_with ''/'' (path_parts p)
      in if p \<noteq> [] \<and> hd p = CHR ''/'' then CHR ''/'' # body
         else if body = [] then ''.'' else body)"

subsection \<open>Errors\<close>

text \<open>
  Every exception the services let escape: their own three classes with the message,
  and the interpreter's \<^verbatim>\<open>ValueError\<close>, \<^verbatim>\<open>OverflowError\<close> and
  \<^verbatim>\<open>KeyError\<close> where library calls raise them uncaught.
\<close>

datatype error =
    IngestError string
  | RegistryImportError string
  | LabelImportError string
  | ValueError
  | OverflowError
  | KeyError

subsection \<open>Dates and times (datetime)\<close>

text \<open>
  A \<^verbatim>\<open>tzinfo\<close> is either a fixed offset (\<^verbatim>\<open>datetime.timezone\<close>, in
  seconds east of UTC) or a zone of the IANA database named by its key
  (\<^verbatim>\<open>zoneinfo.ZoneInfo\<close>).
\<close>

datatype tzinfo = Timezone int | ZoneInfo string

record datetime =
  year :: int
  month :: int
  day :: int
  hour :: int
  minute :: int
  second :: int
  microsecond :: int
  tzinfo :: "tzinfo option"

definition is_leap :: "int \<Rightarrow> bool" where
  "is_leap y \<longleftrightarrow> y mod 4 = 0 \<and> (y mod 100 \<noteq> 0 \<or> y mod 400 = 0)"

definition days_in_month :: "int \<Rightarrow> int \<Rightarrow> int" where
  "days_in_month y m =
     (if m = 2 then (if is_leap y then 29 else 28)
      else if m \<in> {4, 6, 9, 11} then 30 else 31)"

definition days_before_year :: "int \<Rightarrow> int" where
  "days_before_year y = (let p = y - 1 in p * 365 + p div 4 - p div 100 + p div 400)"

definition days_before_month :: "int \<Rightarrow> int \<Rightarrow> int" where
  "days_before_month y m = sum_list (map (days_in_month y) [1 .. m - 1])"

text \<open>The proleptic Gregorian ordinal: 1 for 0001-01-01.\<close>

definition ymd2ord :: "int \<Rightarrow> int \<Rightarrow> int \<Rightarrow> int" where
  "ymd2ord y m d = days_before_year y + days_before_month y m + d"

text \<open>The month and day of the \<open>n\<close>-th day (from 0) of year \<open>y\<close>.\<close>

fun month_day_from :: "int \<Rightarrow> int \<Rightarrow> int list \<Rightarrow> int \<times> int" where
  "month_day_from y n [] = (12, n + 1)"
| "month_day_from y n (m # ms) =
     (if n < days_in_month y m then (m, n + 1) else month_day_from y (n - days_in_month y m) ms)"

definition ord2ymd :: "int \<Rightarrow> int \<times> int \<times> int" where
  "ord2ymd ordinal =
     (let n = ordinal - 1;
          n400 = n div 146097; r400 = n mod 146097;
          n100 = r400 div 36524; r100 = r400 mod 36524;
          n4 = r100 div 1461; r4 = r100 mod 1461;
          n1 = r4 div 365; r1 = r4 mod 365;
          y = n400 * 400 + 1 + n100 * 100 + n4 * 4 + n1
      in if n1 = 4 \<or> n100 = 4 then (y - 1, 12, 31)
         else (let (m, d) = month_day_from y r1 [1, 2, 3, 4, 5, 6, 7, 8, 9, 10, 11]
               in (y, m, d)))"

text \<open>
  \<^verbatim>\<open>datetime(y, m, d, H, M, S, tzinfo=tz)\<close>: fields out of range raise
  \<^verbatim>\<open>ValueError\<close>.
\<close>

definition datetime_new ::
  "int \<Rightarrow> int \<Rightarrow> int \<Rightarrow> int \<Rightarrow> int \<Rightarrow> int \<Rightarrow> tzinfo option \<Rightarrow> error + datetime" where
  "datetime_new y m d H M S tz =
     (if 1 \<le> y \<and> y \<le> 9999 \<and> 1 \<le> m \<and> m \<le> 12 \<and> 1 \<le> d \<and> d \<le> days_in_month y m
         \<and> 0 \<le> H \<and> H \<le> 23 \<and> 0 \<le> M \<and> M \<le> 59 \<and> 0 \<le> S \<and> S \<le> 59
      then Inr \<lparr>year = y, month = m, day = d, hour = H, minute = M, second = S,
                microsecond = 0, tzinfo = tz\<rparr>
      else Inl ValueError)"

text \<open>The wall clock of a datetime, in microseconds and in seconds from ordinal 0.\<close>

definition wall_us :: "datetime \<Rightarrow> int" where
  "wall_us t =
     (((ymd2ord (year t) (month t) (day t) * 24 + hour t) * 60 + minute t) * 60 + second t)
        * 1000000 + microsecond t"

definition wall_seconds :: "datetime \<Rightarrow> int" where
  "wall_seconds t = wall_us t div 1000000"

text \<open>
  The timezone database is not part of the repository: it is a parameter, giving for a
  key the UTC offset in seconds as a function of the wall clock (seconds from ordinal 0),
  or nothing when the key is unknown.
\<close>

type_synonym tzdata = "string \<Rightarrow> (int \<Rightarrow> int) option"

definition utcoffset :: "tzdata \<Rightarrow> datetime \<Rightarrow> int option" where
  "utcoffset tzd t =
     (case tzinfo t of
        None \<Rightarrow> None
      | Some (Timezone off) \<Rightarrow> Some off
      | Some (ZoneInfo key) \<Rightarrow> (case tzd key of None \<Rightarrow> None
                                | Some rule \<Rightarrow> Some (rule (wall_seconds t))))"

text \<open>The absolute instant of an aware datetime: microseconds of UTC from ordinal 0.\<close>

definition instant_us :: "tzdata \<Rightarrow> datetime \<Rightarrow> int" where
  "instant_us tzd t = wall_us t - 1000000 * (case utcoffset tzd t of Some off \<Rightarrow> off | None \<Rightarrow> 0)"

text \<open>
  \<^verbatim>\<open>a - b\<close> on datetimes, as a number of microseconds. When both carry the same
  \<^verbatim>\<open>tzinfo\<close> the library ignores it and subtracts the wall clocks; otherwise both
  are first converted to UTC.
\<close>

definition datetime_sub :: "tzdata \<Rightarrow> datetime \<Rightarrow> datetime \<Rightarrow> int" where
  "datetime_sub tzd a b =
     (if tzinfo a = tzinfo b then wall_us a - wall_us b
      else instant_us tzd a - instant_us tzd b)"

definition total_seconds :: "int \<Rightarrow> real" where
  "total_seconds us = real_of_int us / 1000000"

text \<open>Rounding to the nearest integer, ties to even, as \<^verbatim>\<open>timedelta\<close> rounds microseconds.\<close>

definition round_half_even :: "real \<Rightarrow> int" where
  "round_half_even x =
     (let f = \<lfloor>x\<rfloor>; r = x - of_int f
      in if r < 1 / 2 then f else if r > 1 / 2 then f + 1
         else if even f then f else f + 1)"

text \<open>
  \<^verbatim>\<open>timedelta(days=x)\<close> as microseconds; more than 999999999 days in either
  direction raise \<^verbatim>\<open>OverflowError\<close>.
\<close>

definition timedelta_days :: "real \<Rightarrow> error + int" where
  "timedelta_days x =
     (let us = round_half_even (x * 86400000000)
      in if us div 86400000000 < - 999999999 \<or> us div 86400000000 > 999999999
         then Inl OverflowError else Inr us)"

text \<open>\<^verbatim>\<open>t + delta\<close>: a result outside the years 1 to 9999 raises \<^verbatim>\<open>OverflowError\<close>.\<close>

definition datetime_add :: "datetime \<Rightarrow> int \<Rightarrow> error + datetime" where
  "datetime_add t delta_us =
     (let total = wall_us t + delta_us;
          days = total div 86400000000; rest = total mod 86400000000;
          (y, m, d) = ord2ymd days
      in if days < 1 \<or> days > 3652059 then Inl OverflowError
         else Inr \<lparr>year = y, month = m, day = d,
                   hour = rest div 3600000000, minute = rest div 60000000 mod 60,
                   second = rest div 1000000 mod 60, microsecond = rest mod 1000000,
                   tzinfo = tzinfo t\<rparr>)"

text \<open>\<^verbatim>\<open>isoformat()\<close> with the default separator.\<close>

definition format_offset :: "int \<Rightarrow> string" where
  "format_offset off =
     (let a = \<bar>off\<bar>
      in (if off < 0 then ''-'' else ''+'') @ zpad 2 (a div 3600) @ '':'' @ zpad 2 (a div 60 mod 60)
         @ (if a mod 60 \<noteq> 0 then '':'' @ zpad 2 (a mod 60) else []))"

definition isoformat :: "tzdata \<Rightarrow> datetime \<Rightarrow> string" where
  "isoformat tzd t =
     zpad 4 (year t) @ ''-'' @ zpad 2 (month t) @ ''-'' @ zpad 2 (day t) @ ''T''
       @ zpad 2 (hour t) @ '':'' @ zpad 2 (minute t) @ '':'' @ zpad 2 (second t)
       @ (if microsecond t \<noteq> 0 then ''.'' @ zpad 6 (microsecond t) else [])
       @ (case utcoffset tzd t of None \<Rightarrow> [] | Some off \<Rightarrow> format_offset off)"

subsection \<open>Regular expressions (re)\<close>

text \<open>
  The patterns of the services are sequences of character classes with a greedy
  repetition count, some of them inside a capture group. \<open>Atom cls lo hi g\<close> is the
  class \<open>cls\<close> repeated \<open>lo\<close> to \<open>hi\<close> times (unbounded for \<open>None\<close>), in group
  \<open>g\<close> (0 for no group); \<open>End\<close> is the end of the text. Matching backtracks from the
  longest repetition down, as the library does, and yields the text each atom consumed.
\<close>

datatype atom = Atom "char \<Rightarrow> bool" nat "nat option" nat | End

fun first_some :: "'a option list \<Rightarrow> 'a option" where
  "first_some [] = None"
| "first_some (Some x # _) = Some x"
| "first_some (None # xs) = first_some xs"

fun match_here :: "atom list \<Rightarrow> string \<Rightarrow> (nat \<times> string) list option" where
  "match_here [] s = Some []"
| "match_here (End # as) s = (if s = [] then match_here as s else None)"
| "match_here (Atom cls lo hi g # as) s =
     (let run = length (takeWhile cls s);
          n = (case hi of None \<Rightarrow> run | Some h \<Rightarrow> min run h)
      in if n < lo then None
         else first_some
                (map (\<lambda>k. map_option (\<lambda>toks. (g, take k s) # toks) (match_here as (drop k s)))
                     (rev [lo ..< Suc n])))"

text \<open>\<^verbatim>\<open>pattern.search(s)\<close>: the first start position with a match.\<close>

definition re_search :: "atom list \<Rightarrow> string \<Rightarrow> (nat \<times> string) list option" where
  "re_search pat s = first_some (map (\<lambda>i. match_here pat (drop i s)) [0 ..< Suc (length s)])"

text \<open>\<^verbatim>\<open>match.group(g)\<close>.\<close>

definition re_group :: "(nat \<times> string) list \<Rightarrow> nat \<Rightarrow> string" where
  "re_group toks g = concat (map snd (filter (\<lambda>t. fst t = g) toks))"

definition lit :: "string \<Rightarrow> atom list" where
  "lit s = map (\<lambda>c. Atom (\<lambda>x. x = c) 1 (Some 1) 0) s"

definition ws_star :: "atom list" where
  "ws_star = [Atom py_isspace 0 None 0]"

definition ws_plus :: "atom list" where
  "ws_plus = [Atom py_isspace 1 None 0]"

definition digits :: "nat \<Rightarrow> nat \<Rightarrow> nat \<Rightarrow> atom list" where
  "digits lo hi g = [Atom py_isdigit lo (Some hi) g]"

definition number_chars :: "nat \<Rightarrow> atom list" where
  "number_chars g = [Atom (\<lambda>c. py_isdigit c \<or> c = CHR ''.'') 1 None g]"

definition sign_char :: "char \<Rightarrow> bool" where
  "sign_char c \<longleftrightarrow> c = CHR ''+'' \<or> c = CHR ''-''"

text \<open>
  \<^verbatim>\<open>temp_humid_sample:\s*(\d{4})-(\d{1,2})-(\d{1,2})\s+(\d{1,2}):(\d{1,2}):(\d{1,2}),\s*\<close>
  \<^verbatim>\<open>temp:\s*([0-9.]+),\s*humid:\s*([0-9.]+)%\<close>
\<close>

definition TEMP_HUMID_PATTERN :: "atom list" where
  "TEMP_HUMID_PATTERN =
     lit ''temp_humid_sample:'' @ ws_star
     @ digits 4 4 1 @ lit ''-'' @ digits 1 2 2 @ lit ''-'' @ digits 1 2 3 @ ws_plus
     @ digits 1 2 4 @ lit '':'' @ digits 1 2 5 @ lit '':'' @ digits 1 2 6 @ lit '','' @ ws_star
     @ lit ''temp:'' @ ws_star @ number_chars 7 @ lit '','' @ ws_star
     @ lit ''humid:'' @ ws_star @ number_chars 8 @ lit ''%''"

text \<open>\<^verbatim>\<open>tz\(([+-]?\d+)\)\<close>\<close>

definition TZ_PAREN_PATTERN :: "atom list" where
  "TZ_PAREN_PATTERN =
     lit ''tz('' @ [Atom sign_char 0 (Some 1) 1, Atom py_isdigit 1 None 1] @ lit '')''"

text \<open>\<^verbatim>\<open>\+CCLK:\s*"\d{2}/\d{2}/\d{2},\d{2}:\d{2}:\d{2}([+-]\d{2})"\<close>\<close>

definition TZ_CCLK_PATTERN :: "atom list" where
  "TZ_CCLK_PATTERN =
     lit ''+CCLK:'' @ ws_star @ lit [CHR 0x22]
     @ digits 2 2 0 @ lit ''/'' @ digits 2 2 0 @ lit ''/'' @ digits 2 2 0 @ lit '',''
     @ digits 2 2 0 @ lit '':'' @ digits 2 2 0 @ lit '':'' @ digits 2 2 0
     @ [Atom sign_char 1 (Some 1) 1, Atom py_isdigit 2 (Some 2) 1] @ lit [CHR 0x22]"

text \<open>\<^verbatim>\<open>re.sub(r"\s+", " ", s)\<close>: every run of whitespace becomes one space.\<close>

fun collapse_ws_from :: "bool \<Rightarrow> string \<Rightarrow> string" where
  "collapse_ws_from in_run [] = []"
| "collapse_ws_from in_run (c # cs) =
     (if py_isspace c
      then (if in_run then collapse_ws_from True cs else CHR '' '' # collapse_ws_from True cs)
      else c # collapse_ws_from False cs)"

definition collapse_ws :: "string \<Rightarrow> string" where
  "collapse_ws s = collapse_ws_from False s"

text \<open>
  \<^verbatim>\<open>str.splitlines()\<close>: lines end at \<^verbatim>\<open>\n\<close>, \<^verbatim>\<open>\r\<close>, \<^verbatim>\<open>\r\n\<close>,
  \<^verbatim>\<open>\v\<close>, \<^verbatim>\<open>\f\<close> and the separators 0x1C to 0x1E; no empty last line.
\<close>

definition is_linebreak :: "char \<Rightarrow> bool" where
  "is_linebreak c \<longleftrightarrow> c \<in> set [CHR 0x0A, CHR 0x0D, CHR 0x0B, CHR 0x0C, CHR 0x1C, CHR 0x1D, CHR 0x1E]"

fun splitlines_from :: "string \<Rightarrow> string \<Rightarrow> string list" where
  "splitlines_from cur [] = (if cur = [] then [] else [rev cur])"
| "splitlines_from cur [c] =
     (if is_linebreak c then [rev cur] else [rev (c # cur)])"
| "splitlines_from cur (c # d # cs) =
     (if c = CHR 0x0D \<and> d = CHR 0x0A then rev cur # splitlines_from [] cs
      else if is_linebreak c then rev cur # splitlines_from [] (d # cs)
      else splitlines_from (c # cur) (d # cs))"

definition splitlines :: "string \<Rightarrow> string list" where
  "splitlines s = splitlines_from [] s"

subsection \<open>Library functions taken as parameters\<close>

text \<open>
  What the services call in the standard library and what the results below do not
  depend on is a parameter: \<^verbatim>\<open>float(s)\<close> (\<open>None\<close> for its
  \<^verbatim>\<open>ValueError\<close>), the timezone database, \<^verbatim>\<open>datetime.strptime\<close> and
  \<^verbatim>\<open>datetime.fromisoformat\<close> (\<open>None\<close> for their \<^verbatim>\<open>ValueError\<close>),
  \<^verbatim>\<open>csv.DictReader\<close> (the field names, if there is a header row, and each row as
  a dictionary from field name to value), and the reading of the cell grid of a sheet
  from a spreadsheet archive.
\<close>

record pylib =
  lib_float :: "string \<Rightarrow> real option"
  lib_tzdata :: tzdata
  lib_strptime :: "string \<Rightarrow> string \<Rightarrow> datetime option"
  lib_fromisoformat :: "string \<Rightarrow> datetime option"
  lib_DictReader :: "string \<Rightarrow> string list option \<times> (string \<rightharpoonup> string) list"
  lib_sheet_rows :: "string \<Rightarrow> string \<Rightarrow> error + string list list"

text \<open>The files: the text at each path that exists.\<close>

type_synonym files = "string \<rightharpoonup> string"

text \<open>Sequencing of calls that may raise.\<close>

definition sum_bind :: "error + 'a \<Rightarrow> ('a \<Rightarrow> error + 'b) \<Rightarrow> error + 'b" where
  "sum_bind m f = (case m of Inl e \<Rightarrow> Inl e | Inr x \<Rightarrow> f x)"

fun collect :: "('a \<Rightarrow> error + 'b) \<Rightarrow> 'a list \<Rightarrow> error + 'b list" where
  "collect f [] = Inr []"
| "collect f (x # xs) =
     sum_bind (f x) (\<lambda>y. sum_bind (collect f xs) (\<lambda>ys. Inr (y # ys)))"

section \<open>Domain models (luna\_tb/domain/models.py)\<close>

text \<open>
  Python floats are modelled as exact reals: the finite values, with exact arithmetic.
  Rounding, infinities and NaN are outside this model.
\<close>

record ReadingSample =
  t_elapsed_s :: real
  temp_c :: "real option"
  rh_pct :: "real option"
  timestamp :: "string option"
  sensor_id :: "string option"

record RunMetadata =
  device_id :: string
  diaper_type :: string
  sensor_layout :: string
  external_run_id :: "string option"
  file_name :: "string option"
  run_notes :: "string option"
  start_ts :: "string option"
  end_ts :: "string option"
  sampling_interval_s :: "real option"

record LabelEvent =
  label_event_type :: string
  label_event_time_s :: real
  label_run_id :: int
  label_event_ts :: "string option"
  label_volume_ml :: "real option"
  label_location_label :: "string option"
  label_distance_cm :: "real option"
  label_water_temp_c :: "real option"
  label_confidence :: "real option"
  label_source :: "string option"
  label_notes :: "string option"

record RunRegistryEntry =
  entry_external_run_id :: string
  entry_source_file :: string
  entry_source_row_number :: int
  entry_status :: "string option"
  entry_planned_or_recorded_ts :: "string option"
  entry_test_device :: "string option"
  entry_sensor_cap :: "string option"
  entry_diaper_type :: "string option"
  entry_test_protocol :: "string option"
  entry_findings_comments :: "string option"
  entry_test_result_ref :: "string option"
  entry_log_file_ref :: "string option"

section \<open>Storage (luna\_tb/storage)\<close>

text \<open>
  The tables, each in the order of its rows. A row of \<^verbatim>\<open>runs\<close> is its id and the
  metadata it was created from (the baseline columns are written as NULL); a row of
  \<^verbatim>\<open>run_registry\<close> is its id, the imported entry and the linked run, if any.
\<close>

record run_row =
  run_id :: int
  run_metadata :: RunMetadata

record registry_row =
  registry_id :: int
  registry_entry :: RunRegistryEntry
  linked_run_id :: "int option"

record database =
  tbl_runs :: "run_row list"
  tbl_readings :: "(int \<times> ReadingSample) list"
  tbl_labels :: "LabelEvent list"
  tbl_run_registry :: "registry_row list"

text \<open>
  A connection: what is committed in the file, and the state the open transaction sees.
  \<^verbatim>\<open>commit\<close> makes the second the first; leaving the \<^verbatim>\<open>with\<close> block by an
  exception rolls back to the first.
\<close>

record connection =
  committed :: database
  working :: database

definition get_connection :: "database \<Rightarrow> connection" where
  "get_connection db = \<lparr>committed = db, working = db\<rparr>"

definition commit :: "connection \<Rightarrow> connection" where
  "commit conn = conn\<lparr>committed := working conn\<rparr>"

definition rollback :: "connection \<Rightarrow> connection" where
  "rollback conn = conn\<lparr>working := committed conn\<rparr>"

text \<open>
  Modelled from the spec: the schema of the tables (the migration scripts) is not among
  the sources, and the storage contract only says that creating a run gives its id. Here
  the id of an inserted row is one more than the largest id of its table, SQLite's rule
  for an integer primary key; the results below use only that the new run has that id.
\<close>

definition next_id :: "int list \<Rightarrow> int" where
  "next_id ids = (if ids = [] then 1 else Max (set ids) + 1)"

text \<open>\<^verbatim>\<open>RunRepository.create_run\<close>\<close>

definition create_run :: "database \<Rightarrow> RunMetadata \<Rightarrow> database \<times> int" where
  "create_run db metadata =
     (let rid = next_id (map run_id (tbl_runs db))
      in (db\<lparr>tbl_runs := tbl_runs db @ [\<lparr>run_id = rid, run_metadata = metadata\<rparr>]\<rparr>, rid))"

text \<open>\<^verbatim>\<open>ReadingRepository.insert_readings\<close>\<close>

definition insert_readings :: "database \<Rightarrow> int \<Rightarrow> ReadingSample list \<Rightarrow> database" where
  "insert_readings db rid rs = db\<lparr>tbl_readings := tbl_readings db @ map (\<lambda>r. (rid, r)) rs\<rparr>"


text \<open>
  \<^verbatim>\<open>RunRegistryRepository.upsert_entries\<close>: a row with the entry's external run id
  is overwritten in its imported columns, keeping its id and its linked run; otherwise a
  new unlinked row is added.
\<close>

definition upsert_entry :: "registry_row list \<Rightarrow> RunRegistryEntry \<Rightarrow> registry_row list" where
  "upsert_entry rows entry =
     (if \<exists>r \<in> set rows. entry_external_run_id (registry_entry r) = entry_external_run_id entry
      then map (\<lambda>r. if entry_external_run_id (registry_entry r) = entry_external_run_id entry
                     then r\<lparr>registry_entry := entry\<rparr> else r) rows
      else rows @ [\<lparr>registry_id = next_id (map registry_id rows), registry_entry = entry,
                     linked_run_id = None\<rparr>])"

definition upsert_entries :: "database \<Rightarrow> RunRegistryEntry list \<Rightarrow> database \<times> int" where
  "upsert_entries db entries =
     (db\<lparr>tbl_run_registry := foldl upsert_entry (tbl_run_registry db) entries\<rparr>,
      int (length entries))"

text \<open>
  \<^verbatim>\<open>RunRegistryRepository.find_by_log_file_ref\<close>: \<^verbatim>\<open>fetchone\<close> gives the first
  row of the query, if any.
\<close>

definition find_by_log_file_ref :: "database \<Rightarrow> string \<Rightarrow> registry_row option" where
  "find_by_log_file_ref db log_file_name =
     find (\<lambda>r. sql_trim (entry_log_file_ref (registry_entry r)) = Some log_file_name)
          (tbl_run_registry db)"

text \<open>\<^verbatim>\<open>RunRegistryRepository.attach_run\<close>\<close>

definition attach_run :: "database \<Rightarrow> int \<Rightarrow> int \<Rightarrow> database" where
  "attach_run db reg_id rid =
     db\<lparr>tbl_run_registry :=
          map (\<lambda>r. if registry_id r = reg_id then r\<lparr>linked_run_id := Some rid\<rparr> else r)
              (tbl_run_registry db)\<rparr>"

section \<open>Ingest service (luna\_tb/services/ingest.py)\<close>

definition quoted :: "string \<Rightarrow> string" where
  "quoted s = [CHR 0x27] @ s @ [CHR 0x27]"

text \<open>\<^verbatim>\<open>_empty_to_none\<close> (the same in the ingest and the label service)\<close>

definition empty_to_none :: "string option \<Rightarrow> string option" where
  "empty_to_none value =
     (case value of
        None \<Rightarrow> None
      | Some v \<Rightarrow> (let stripped = py_strip v in if stripped = [] then None else Some stripped))"

text \<open>\<^verbatim>\<open>_tz_from_name\<close>\<close>

definition ingest_tz_from_name :: "pylib \<Rightarrow> string \<Rightarrow> error + tzinfo" where
  "ingest_tz_from_name lib name =
     (case lib_tzdata lib name of
        None \<Rightarrow> Inl (IngestError (''Unknown timezone: '' @ name))
      | Some _ \<Rightarrow> Inr (ZoneInfo name))"

text \<open>
  \<^verbatim>\<open>_tz_from_quarters\<close>: \<^verbatim>\<open>timedelta(minutes=value * 15)\<close> overflows beyond
  999999999 days, and \<^verbatim>\<open>timezone\<close> wants an offset strictly within 24 hours.
\<close>

definition tz_from_quarters :: "int \<Rightarrow> error + tzinfo" where
  "tz_from_quarters v =
     (let minutes = v * 15
      in if minutes div 1440 < - 999999999 \<or> minutes div 1440 > 999999999 then Inl OverflowError
         else if minutes \<le> - 1440 \<or> 1440 \<le> minutes then Inl ValueError
         else Inr (Timezone (minutes * 60)))"

definition tz_from_group :: "string \<Rightarrow> error + tzinfo" where
  "tz_from_group g = (case py_int g of None \<Rightarrow> Inl ValueError | Some v \<Rightarrow> tz_from_quarters v)"

text \<open>\<^verbatim>\<open>_detect_tzinfo\<close>\<close>

fun detect_tzinfo :: "pylib \<Rightarrow> string list \<Rightarrow> string \<Rightarrow> error + tzinfo" where
  "detect_tzinfo lib [] default_tz = ingest_tz_from_name lib default_tz"
| "detect_tzinfo lib (line # lines) default_tz =
     (case re_search TZ_PAREN_PATTERN line of
        Some m \<Rightarrow> tz_from_group (re_group m 1)
      | None \<Rightarrow>
          (case re_search TZ_CCLK_PATTERN line of
             Some m \<Rightarrow> tz_from_group (re_group m 1)
           | None \<Rightarrow> detect_tzinfo lib lines default_tz))"

text \<open>\<^verbatim>\<open>_to_float\<close>\<close>

definition ingest_to_float ::
  "pylib \<Rightarrow> string option \<Rightarrow> string \<Rightarrow> string \<Rightarrow> bool \<Rightarrow> error + real option" where
  "ingest_to_float lib value field path allow_empty =
     (case value of
        None \<Rightarrow>
          if allow_empty then Inr None
          else Inl (IngestError (''Missing '' @ field @ '' value in '' @ path_str path))
      | Some v \<Rightarrow>
          (let stripped = py_strip v
           in if stripped = []
              then (if allow_empty then Inr None
                    else Inl (IngestError (''Empty '' @ field @ '' value in '' @ path_str path)))
              else (case lib_float lib stripped of
                      None \<Rightarrow> Inl (IngestError (''Invalid '' @ field @ '' value '' @ quoted v
                                                   @ '' in '' @ path_str path))
                    | Some x \<Rightarrow> Inr (Some x))))"

text \<open>\<^verbatim>\<open>_normalize_timestamp\<close> of the ingest service\<close>

definition ingest_normalize_timestamp ::
  "pylib \<Rightarrow> string option \<Rightarrow> string \<Rightarrow> string \<Rightarrow> error + string option" where
  "ingest_normalize_timestamp lib value default_tz path =
     (case value of
        None \<Rightarrow> Inr None
      | Some v \<Rightarrow>
          (case lib_fromisoformat lib
                  (if endswith v ''Z'' then replace_char CHR ''Z'' ''+00:00'' v else v) of
             None \<Rightarrow> Inl (IngestError (''Invalid timestamp '' @ quoted v @ '' in '' @ path_str path))
           | Some dt_value \<Rightarrow>
               if tzinfo dt_value = None
               then sum_bind (ingest_tz_from_name lib default_tz)
                      (\<lambda>tz. Inr (Some (isoformat (lib_tzdata lib) (dt_value\<lparr>tzinfo := Some tz\<rparr>))))
               else Inr (Some (isoformat (lib_tzdata lib) dt_value))))"

text \<open>
  \<^verbatim>\<open>_parse_csv_log\<close>. One row: the timestamp is normalised first, then the fields of
  the sample are converted in the order of the constructor call. The elapsed time is
  converted without \<^verbatim>\<open>allow_empty\<close>, so it is never null.
\<close>

definition csv_reading ::
  "pylib \<Rightarrow> string \<Rightarrow> string \<Rightarrow> (string \<rightharpoonup> string) \<Rightarrow> error + ReadingSample" where
  "csv_reading lib path default_tz row =
     sum_bind (ingest_normalize_timestamp lib (empty_to_none (row ''timestamp'')) default_tz path)
       (\<lambda>ts. sum_bind (ingest_to_float lib (row ''t_elapsed_s'') ''t_elapsed_s'' path False)
       (\<lambda>t. sum_bind (ingest_to_float lib (row ''temp_c'') ''temp_c'' path True)
       (\<lambda>temp. sum_bind (ingest_to_float lib (row ''rh_pct'') ''rh_pct'' path True)
       (\<lambda>rh. case t of
                None \<Rightarrow> Inl (IngestError (''Missing t_elapsed_s value in '' @ path_str path))
              | Some t' \<Rightarrow>
                  Inr \<lparr>t_elapsed_s = t', temp_c = temp, rh_pct = rh, timestamp = ts,
                       sensor_id = empty_to_none (row ''sensor_id'')\<rparr>))))"

text \<open>
  The readings of the rows in file order, before sorting. The required columns are
  listed in sorted order, which is how the message names the missing ones.
\<close>

definition csv_log_readings ::
  "pylib \<Rightarrow> string \<Rightarrow> string \<Rightarrow> string \<Rightarrow> error + ReadingSample list" where
  "csv_log_readings lib path default_tz content =
     (case lib_DictReader lib content of
        (None, rows) \<Rightarrow> Inl (IngestError (''Missing header row in '' @ path_str path))
      | (Some fieldnames, rows) \<Rightarrow>
          (let missing = filter (\<lambda>name. name \<notin> set (map py_strip fieldnames))
                                [''rh_pct'', ''t_elapsed_s'', ''temp_c'']
           in if missing \<noteq> []
              then Inl (IngestError (''Missing required columns '' @ repr_str_list missing
                                      @ '' in '' @ path_str path))
              else collect (csv_reading lib path default_tz) rows))"

text \<open>
  \<^verbatim>\<open>list.sort(key=...)\<close> is a stable sort; on keys that are totally ordered its
  result is that of the stable insertion sort \<open>sort_key\<close>.
\<close>

definition parse_csv_log :: "pylib \<Rightarrow> files \<Rightarrow> string \<Rightarrow> string \<Rightarrow> error + ReadingSample list" where
  "parse_csv_log lib fs path default_tz =
     (case fs path of
        None \<Rightarrow> Inl (IngestError (''Log path does not exist: '' @ path_str path))
      | Some content \<Rightarrow>
          sum_bind (csv_log_readings lib path default_tz content)
            (\<lambda>readings. Inr (sort_key t_elapsed_s readings)))"

text \<open>
  \<^verbatim>\<open>_parse_device_log\<close>. The loop over the lines carries \<^verbatim>\<open>base_dt\<close> and the
  readings so far. A matched line whose fields are no calendar date or time raises
  \<^verbatim>\<open>ValueError\<close> in the \<^verbatim>\<open>datetime\<close> constructor, and so does a number that
  \<^verbatim>\<open>float\<close> does not accept.
\<close>

definition group_int :: "(nat \<times> string) list \<Rightarrow> nat \<Rightarrow> int" where
  "group_int m g = int_of_digits (re_group m g)"

definition sample_datetime :: "tzinfo \<Rightarrow> (nat \<times> string) list \<Rightarrow> error + datetime" where
  "sample_datetime tz m =
     datetime_new (group_int m 1) (group_int m 2) (group_int m 3)
                  (group_int m 4) (group_int m 5) (group_int m 6) (Some tz)"

fun device_log_loop ::
  "pylib \<Rightarrow> tzinfo \<Rightarrow> string list \<Rightarrow> datetime option \<Rightarrow> ReadingSample list
     \<Rightarrow> error + ReadingSample list" where
  "device_log_loop lib tz [] base_dt readings = Inr readings"
| "device_log_loop lib tz (line # lines) base_dt readings =
     (case re_search TEMP_HUMID_PATTERN line of
        None \<Rightarrow> device_log_loop lib tz lines base_dt readings
      | Some m \<Rightarrow>
          (case sample_datetime tz m of
             Inl e \<Rightarrow> Inl e
           | Inr sample_dt \<Rightarrow>
               (let base = (case base_dt of None \<Rightarrow> sample_dt | Some b \<Rightarrow> b)
                in case lib_float lib (re_group m 7) of
                     None \<Rightarrow> Inl ValueError
                   | Some temp \<Rightarrow>
                       (case lib_float lib (re_group m 8) of
                          None \<Rightarrow> Inl ValueError
                        | Some humid \<Rightarrow>
                            device_log_loop lib tz lines (Some base)
                              (readings @
                                 [\<lparr>t_elapsed_s =
                                      total_seconds (datetime_sub (lib_tzdata lib) sample_dt base),
                                    temp_c = Some temp, rh_pct = Some humid,
                                    timestamp = Some (isoformat (lib_tzdata lib) sample_dt),
                                    sensor_id = None\<rparr>])))))"

definition parse_device_log ::
  "pylib \<Rightarrow> files \<Rightarrow> string \<Rightarrow> string \<Rightarrow> error + ReadingSample list" where
  "parse_device_log lib fs path default_tz =
     (case fs path of
        None \<Rightarrow> Inl (IngestError (''Log path does not exist: '' @ path_str path))
      | Some content \<Rightarrow>
          (let lines = splitlines content
           in sum_bind (detect_tzinfo lib lines default_tz)
                (\<lambda>tz. sum_bind (device_log_loop lib tz lines None [])
                   (\<lambda>readings. Inr (sort_key t_elapsed_s readings)))))"

text \<open>\<^verbatim>\<open>_parse_log_file\<close>\<close>

definition parse_log_file ::
  "pylib \<Rightarrow> files \<Rightarrow> string \<Rightarrow> string \<Rightarrow> error + ReadingSample list" where
  "parse_log_file lib fs path default_tz =
     (let suffix = py_lower (path_suffix path)
      in if suffix = ''.csv'' then parse_csv_log lib fs path default_tz
         else if suffix = ''.log'' then parse_device_log lib fs path default_tz
         else Inl (IngestError (''Unsupported log format: '' @ path_suffix path)))"

text \<open>\<^verbatim>\<open>_estimate_sampling_interval\<close>\<close>

definition deltas_of :: "ReadingSample list \<Rightarrow> real list" where
  "deltas_of readings =
     [t_elapsed_s (readings ! (i + 1)) - t_elapsed_s (readings ! i).
        i \<leftarrow> [0 ..< length readings - 1],
        t_elapsed_s (readings ! (i + 1)) \<ge> t_elapsed_s (readings ! i)]"

definition estimate_sampling_interval :: "ReadingSample list \<Rightarrow> real option" where
  "estimate_sampling_interval readings =
     (if length readings < 2 then None
      else let deltas = deltas_of readings in
        if deltas = [] then None
        else Some (sum_list deltas / real (length deltas)))"

text \<open>
  \<^verbatim>\<open>ingest_logs\<close>. The body of the loop for one file, on the state the transaction
  sees: it gives the new state and the run id, or raises before anything is written.
\<close>

record ingest_options =
  opt_device_id :: string
  opt_diaper_type :: string
  opt_sensor_layout :: string
  opt_run_notes :: "string option"
  opt_default_tz :: string

definition ingest_file ::
  "pylib \<Rightarrow> files \<Rightarrow> ingest_options \<Rightarrow> database \<Rightarrow> string \<Rightarrow> error + database \<times> int" where
  "ingest_file lib fs opts db log_path =
     (let name = path_name log_path
      in case find_by_log_file_ref db name of
           None \<Rightarrow>
             Inl (IngestError (''No run_registry entry matches log file '' @ quoted name
                               @ ''. Import/update the registry source first.''))
         | Some entry \<Rightarrow>
             (case linked_run_id entry of
                Some linked \<Rightarrow>
                  Inl (IngestError (''run_registry entry for '' @ quoted name
                                    @ '' is already linked to run_id='' @ str_int linked))
              | None \<Rightarrow>
                  sum_bind (parse_log_file lib fs log_path (opt_default_tz opts))
                    (\<lambda>readings.
                       if readings = []
                       then Inl (IngestError (''No readings parsed from '' @ path_str log_path))
                       else (let metadata =
                                   \<lparr>device_id = opt_device_id opts,
                                    diaper_type = opt_diaper_type opts,
                                    sensor_layout = opt_sensor_layout opts,
                                    external_run_id =
                                      Some (entry_external_run_id (registry_entry entry)),
                                    file_name = Some name,
                                    run_notes = opt_run_notes opts,
                                    start_ts = timestamp (hd readings),
                                    end_ts = timestamp (last readings),
                                    sampling_interval_s = estimate_sampling_interval readings\<rparr>;
                                 (db1, rid) = create_run db metadata;
                                 db2 = insert_readings db1 rid readings;
                                 db3 = attach_run db2 (registry_id entry) rid
                             in Inr (db3, rid)))))"

text \<open>
  The loop over the files: each file is committed before the next one is read; the
  first exception leaves the loop.
\<close>

fun ingest_loop ::
  "pylib \<Rightarrow> files \<Rightarrow> ingest_options \<Rightarrow> connection \<Rightarrow> string list \<Rightarrow> int list
     \<Rightarrow> connection \<times> (error + int list)" where
  "ingest_loop lib fs opts conn [] run_ids = (conn, Inr run_ids)"
| "ingest_loop lib fs opts conn (log_path # log_paths) run_ids =
     (case ingest_file lib fs opts (working conn) log_path of
        Inl e \<Rightarrow> (conn, Inl e)
      | Inr (db', rid) \<Rightarrow>
          ingest_loop lib fs opts (commit (conn\<lparr>working := db'\<rparr>)) log_paths (run_ids @ [rid]))"

text \<open>
  The whole call, from the database in the file to the database in the file afterwards
  and the outcome: the connection's \<^verbatim>\<open>with\<close> block commits when the body returns
  and rolls back when it raises.
\<close>

definition ingest_logs ::
  "pylib \<Rightarrow> files \<Rightarrow> ingest_options \<Rightarrow> database \<Rightarrow> string list \<Rightarrow> database \<times> (error + int list)" where
  "ingest_logs lib fs opts db log_paths =
     (case ingest_loop lib fs opts (get_connection db) log_paths [] of
        (conn, Inl e) \<Rightarrow> (committed (rollback conn), Inl e)
      | (conn, Inr run_ids) \<Rightarrow> (committed (commit conn), Inr run_ids))"

section \<open>Run registry import (luna\_tb/services/registry\_import.py)\<close>

definition COLUMN_MAP :: "(string \<times> string) list" where
  "COLUMN_MAP =
     [(''runid'', ''external_run_id''),
      (''test status'', ''status''),
      (''timestamp'', ''planned_or_recorded_ts''),
      (''test device'', ''test_device''),
      (''sensor cap'', ''sensor_cap''),
      (''diaper type'', ''diaper_type''),
      (''findings / comments'', ''findings_comments''),
      (''test protocol'', ''test_protocol''),
      (''test result'', ''test_result_ref''),
      (''log file'', ''log_file_ref'')]"

text \<open>\<^verbatim>\<open>_normalize_header\<close>\<close>

definition normalize_header :: "string \<Rightarrow> string" where
  "normalize_header value = collapse_ws (py_lower (py_strip value))"

text \<open>\<^verbatim>\<open>_clean_str\<close>\<close>

definition clean_str :: "string option \<Rightarrow> string option" where
  "clean_str value =
     (case value of
        None \<Rightarrow> None
      | Some v \<Rightarrow> (let text = py_strip v in if text = [] then None else Some text))"

text \<open>\<^verbatim>\<open>_tz_from_name\<close>\<close>

definition registry_tz_from_name :: "pylib \<Rightarrow> string \<Rightarrow> error + tzinfo" where
  "registry_tz_from_name lib name =
     (case lib_tzdata lib name of
        None \<Rightarrow> Inl (RegistryImportError (''Unknown timezone: '' @ name))
      | Some _ \<Rightarrow> Inr (ZoneInfo name))"

text \<open>
  \<^verbatim>\<open>_normalize_timestamp\<close> of the registry import. The serial branch is
  \<^verbatim>\<open>datetime(1899, 12, 30) + timedelta(days=numeric)\<close>; its
  \<^verbatim>\<open>OverflowError\<close> is not caught by the \<^verbatim>\<open>except ValueError\<close> around it.
\<close>

definition excel_epoch :: datetime where
  "excel_epoch = \<lparr>year = 1899, month = 12, day = 30, hour = 0, minute = 0, second = 0,
                    microsecond = 0, tzinfo = None\<rparr>"

definition serial_datetime :: "real \<Rightarrow> error + datetime" where
  "serial_datetime numeric =
     sum_bind (timedelta_days numeric) (\<lambda>delta. datetime_add excel_epoch delta)"

definition registry_formats :: "string list" where
  "registry_formats = [''%Y-%m-%d %H:%M:%S'', ''%Y-%m-%d %H:%M'', ''%Y-%m-%d'']"

definition parse_formats_and_iso :: "pylib \<Rightarrow> tzinfo \<Rightarrow> string \<Rightarrow> string" where
  "parse_formats_and_iso lib tz v =
     (case first_some (map (lib_strptime lib v) registry_formats) of
        Some dt_value \<Rightarrow> isoformat (lib_tzdata lib) (dt_value\<lparr>tzinfo := Some tz\<rparr>)
      | None \<Rightarrow>
          (case lib_fromisoformat lib v of
             Some dt_value \<Rightarrow>
               isoformat (lib_tzdata lib)
                 (if tzinfo dt_value = None then dt_value\<lparr>tzinfo := Some tz\<rparr> else dt_value)
           | None \<Rightarrow> v))"

definition registry_normalize_timestamp ::
  "pylib \<Rightarrow> string option \<Rightarrow> string \<Rightarrow> error + string option" where
  "registry_normalize_timestamp lib value default_tz =
     (case value of
        None \<Rightarrow> Inr None
      | Some v \<Rightarrow>
          sum_bind (registry_tz_from_name lib default_tz)
            (\<lambda>tz. case lib_float lib v of
                     None \<Rightarrow> Inr (Some (parse_formats_and_iso lib tz v))
                   | Some numeric \<Rightarrow>
                       if numeric > 1000
                       then sum_bind (serial_datetime numeric)
                              (\<lambda>dt_value. Inr (Some (isoformat (lib_tzdata lib)
                                                       (dt_value\<lparr>tzinfo := Some tz\<rparr>))))
                       else Inr (Some (parse_formats_and_iso lib tz v))))"

text \<open>\<^verbatim>\<open>_validate_required_headers\<close>\<close>

definition validate_required_headers :: "(string \<rightharpoonup> string) \<Rightarrow> error + unit" where
  "validate_required_headers normalized_headers =
     (let missing = filter (\<lambda>h. normalized_headers h = None) [''runid'', ''test status'', ''log file'']
      in if missing \<noteq> []
         then Inl (RegistryImportError (''Missing required headers: '' @ repr_str_list missing))
         else Inr ())"

text \<open>
  \<^verbatim>\<open>_map_row\<close>: \<open>None\<close> for a row that is skipped. The dictionary
  \<^verbatim>\<open>mapped\<close> is read through \<open>cell\<close>, by the source name of each column.
\<close>

definition map_row ::
  "pylib \<Rightarrow> (string \<rightharpoonup> string) \<Rightarrow> (string \<rightharpoonup> string) \<Rightarrow> string \<Rightarrow> int \<Rightarrow> string
     \<Rightarrow> error + RunRegistryEntry option" where
  "map_row lib row normalized_headers source_file source_row_number default_tz =
     (case normalized_headers ''runid'' of
        None \<Rightarrow> Inl KeyError
      | Some external_header \<Rightarrow>
          (case clean_str (row external_header) of
             None \<Rightarrow> Inr None
           | Some ext_id \<Rightarrow>
               (let cell = (\<lambda>source_name.
                              clean_str (case normalized_headers source_name of
                                           None \<Rightarrow> None | Some header \<Rightarrow> row header))
                in sum_bind (registry_normalize_timestamp lib (cell ''timestamp'') default_tz)
                     (\<lambda>ts. Inr (Some
                        \<lparr>entry_external_run_id = ext_id,
                         entry_source_file = path_name source_file,
                         entry_source_row_number = source_row_number,
                         entry_status = cell ''test status'',
                         entry_planned_or_recorded_ts = ts,
                         entry_test_device = cell ''test device'',
                         entry_sensor_cap = cell ''sensor cap'',
                         entry_diaper_type = cell ''diaper type'',
                         entry_test_protocol = cell ''test protocol'',
                         entry_findings_comments = cell ''findings / comments'',
                         entry_test_result_ref = cell ''test result'',
                         entry_log_file_ref = cell ''log file''\<rparr>)))))"

text \<open>
  The loop over the rows, numbered from 2: the mapped rows that are not skipped, or the
  first exception.
\<close>

definition map_rows ::
  "pylib \<Rightarrow> (string \<rightharpoonup> string) list \<Rightarrow> (string \<rightharpoonup> string) \<Rightarrow> string \<Rightarrow> string
     \<Rightarrow> error + RunRegistryEntry list" where
  "map_rows lib rows normalized_headers path default_tz =
     sum_bind
       (collect (\<lambda>(idx, row). map_row lib row normalized_headers path idx default_tz)
                (zip [2 .. int (length rows) + 1] rows))
       (\<lambda>mapped. Inr (List.map_filter id mapped))"

text \<open>A dictionary comprehension over a list: a later item replaces an earlier one.\<close>

definition dict_of :: "('k \<times> 'v) list \<Rightarrow> ('k \<rightharpoonup> 'v)" where
  "dict_of items = map_of (rev items)"

text \<open>\<^verbatim>\<open>_parse_registry_csv\<close>\<close>

definition parse_registry_csv ::
  "pylib \<Rightarrow> files \<Rightarrow> string \<Rightarrow> string \<Rightarrow> error + RunRegistryEntry list" where
  "parse_registry_csv lib fs path default_tz =
     (case fs path of
        None \<Rightarrow> Inl (RegistryImportError (''Registry file does not exist: '' @ path_str path))
      | Some content \<Rightarrow>
          (case lib_DictReader lib content of
             (None, rows) \<Rightarrow> Inl (RegistryImportError (''Missing header row in '' @ path_str path))
           | (Some fieldnames, rows) \<Rightarrow>
               (let normalized = dict_of (map (\<lambda>h. (normalize_header h, h)) fieldnames)
                in sum_bind (validate_required_headers normalized)
                     (\<lambda>_. map_rows lib rows normalized path default_tz))))"

text \<open>
  \<^verbatim>\<open>_parse_registry_xlsx\<close>, from the cell grid \<^verbatim>\<open>row_values\<close> on; the walk
  through the archive that produces the grid (or raises) is \<open>lib_sheet_rows\<close>.
\<close>

definition parse_registry_xlsx ::
  "pylib \<Rightarrow> files \<Rightarrow> string \<Rightarrow> string \<Rightarrow> string \<Rightarrow> error + RunRegistryEntry list" where
  "parse_registry_xlsx lib fs path sheet_name default_tz =
     (case fs path of
        None \<Rightarrow> Inl (RegistryImportError (''Registry file does not exist: '' @ path_str path))
      | Some content \<Rightarrow>
          sum_bind (lib_sheet_rows lib content sheet_name)
            (\<lambda>row_values.
               case row_values of
                 [] \<Rightarrow> Inr []
               | headers # data_rows \<Rightarrow>
                   (let normalized = dict_of (map (\<lambda>h. (normalize_header h, h))
                                                  (filter (\<lambda>h. h \<noteq> []) headers));
                        header_to_pos = dict_of (zip headers [0 ..< length headers]);
                        row_dict = (\<lambda>values header.
                                      case header_to_pos header of
                                        None \<Rightarrow> None
                                      | Some pos \<Rightarrow>
                                          Some (if pos < length values then values ! pos else []))
                    in sum_bind (validate_required_headers normalized)
                         (\<lambda>_. map_rows lib (map row_dict data_rows) normalized path default_tz))))"

text \<open>\<^verbatim>\<open>import_run_registry\<close>: the database afterwards and the count, or the exception.\<close>

definition import_run_registry ::
  "pylib \<Rightarrow> files \<Rightarrow> database \<Rightarrow> string \<Rightarrow> string \<Rightarrow> string \<Rightarrow> database \<times> (error + int)" where
  "import_run_registry lib fs db file_path sheet_name default_tz =
     (let suffix = py_lower (path_suffix file_path);
          parsed =
            (if suffix = ''.csv'' then parse_registry_csv lib fs file_path default_tz
             else if suffix = ''.xlsx''
               then parse_registry_xlsx lib fs file_path sheet_name default_tz
             else Inl (RegistryImportError (''Unsupported registry format: ''
                                            @ path_suffix file_path)))
      in case parsed of
           Inl e \<Rightarrow> (db, Inl e)
         | Inr entries \<Rightarrow>
             if entries = []
             then (db, Inl (RegistryImportError (''No registry rows found in ''
                                                 @ path_str file_path)))
             else (let conn = get_connection db;
                       (db', count) = upsert_entries (working conn) entries;
                       conn' = commit (conn\<lparr>working := db'\<rparr>)
                   in (committed conn', Inr count)))"

section \<open>Label import (luna\_tb/services/label\_import.py)\<close>







section \<open>A library instance for the examples\<close>

text \<open>
  The results below hold for every library. The examples run on this instance, which
  accepts plain forms only: decimal numbers without exponent, zero-padded ISO dates and
  times, comma-separated text without quoting, and three zones of the timezone database.
\<close>

definition float_plain :: "string \<Rightarrow> real option" where
  "float_plain s =
     (let t = py_strip s;
          (neg, body) = (case t of
                           c # cs \<Rightarrow> if c = CHR ''-'' then (True, cs)
                                     else if c = CHR ''+'' then (False, cs) else (False, t)
                         | [] \<Rightarrow> (False, t));
          whole = takeWhile py_isdigit body;
          rest = dropWhile py_isdigit body;
          frac = (case rest of
                    [] \<Rightarrow> Some []
                  | c # cs \<Rightarrow> if c = CHR ''.'' \<and> list_all py_isdigit cs then Some cs else None)
      in case frac of
           None \<Rightarrow> None
         | Some f \<Rightarrow>
             if whole = [] \<and> f = [] then None
             else (let x = of_int (int_of_digits whole) + of_int (int_of_digits f) / 10 ^ length f
                   in Some (if neg then - x else x)))"

text \<open>
  Europe/Berlin in 2026: UTC+2 for wall clocks from 29 March 03:00 up to 25 October
  03:00, UTC+1 otherwise.
\<close>

definition berlin_2026 :: "int \<Rightarrow> int" where
  "berlin_2026 wall =
     (if (ymd2ord 2026 3 29 * 24 + 3) * 3600 \<le> wall \<and> wall < (ymd2ord 2026 10 25 * 24 + 3) * 3600
      then 7200 else 3600)"

definition tzdata_plain :: tzdata where
  "tzdata_plain key =
     (if key = ''UTC'' then Some (\<lambda>_. 0)
      else if key = ''Etc/GMT-1'' then Some (\<lambda>_. 3600)
      else if key = ''Europe/Berlin'' then Some berlin_2026
      else None)"

definition date_atoms :: "nat \<Rightarrow> atom list" where
  "date_atoms w = digits 4 4 1 @ lit ''-'' @ digits w 2 2 @ lit ''-'' @ digits w 2 3"

definition time_atoms :: "nat \<Rightarrow> atom list" where
  "time_atoms w = digits w 2 4 @ lit '':'' @ digits w 2 5 @ lit '':'' @ digits w 2 6"

definition fields_datetime :: "(nat \<times> string) list \<Rightarrow> tzinfo option \<Rightarrow> datetime option" where
  "fields_datetime m tz =
     (case datetime_new (group_int m 1) (group_int m 2) (group_int m 3)
                        (group_int m 4) (group_int m 5) (group_int m 6) tz of
        Inl _ \<Rightarrow> None | Inr t \<Rightarrow> Some t)"

definition strptime_plain :: "string \<Rightarrow> string \<Rightarrow> datetime option" where
  "strptime_plain s fmt =
     (let pat = (if fmt = ''%Y-%m-%d %H:%M:%S'' then Some (date_atoms 1 @ ws_plus @ time_atoms 1 @ [End])
                 else if fmt = ''%Y-%m-%d %H:%M''
                   then Some (date_atoms 1 @ ws_plus @ digits 1 2 4 @ lit '':'' @ digits 1 2 5 @ [End])
                 else if fmt = ''%Y-%m-%d'' then Some (date_atoms 1 @ [End])
                 else None)
      in case pat of
           None \<Rightarrow> None
         | Some p \<Rightarrow> (case match_here p s of None \<Rightarrow> None | Some m \<Rightarrow> fields_datetime m None))"

definition fromisoformat_plain :: "string \<Rightarrow> datetime option" where
  "fromisoformat_plain s =
     (let sep = [Atom (\<lambda>c. c = CHR ''T'' \<or> c = CHR '' '') 1 (Some 1) 0];
          offset = [Atom sign_char 1 (Some 1) 7] @ digits 2 2 8 @ lit '':'' @ digits 2 2 9
      in case match_here (date_atoms 2 @ [End]) s of
           Some m \<Rightarrow> fields_datetime m None
         | None \<Rightarrow>
             (case match_here (date_atoms 2 @ sep @ time_atoms 2 @ [End]) s of
                Some m \<Rightarrow> fields_datetime m None
              | None \<Rightarrow>
                  (case match_here (date_atoms 2 @ sep @ time_atoms 2 @ offset @ [End]) s of
                     None \<Rightarrow> None
                   | Some m \<Rightarrow>
                       if group_int m 8 \<le> 23 \<and> group_int m 9 \<le> 59
                       then fields_datetime m
                              (Some (Timezone ((if re_group m 7 = ''-'' then - 1 else 1)
                                               * (group_int m 8 * 3600 + group_int m 9 * 60))))
                       else None)))"

definition DictReader_plain :: "string \<Rightarrow> string list option \<times> (string \<rightharpoonup> string) list" where
  "DictReader_plain content =
     (case map (split_on CHR '','') (filter (\<lambda>l. l \<noteq> []) (splitlines content)) of
        [] \<Rightarrow> (None, [])
      | header # rows \<Rightarrow> (Some header, map (\<lambda>row. dict_of (zip header row)) rows))"

definition sheet_rows_plain :: "string \<Rightarrow> string \<Rightarrow> error + string list list" where
  "sheet_rows_plain content sheet_name = Inr (map (split_on CHR '','') (splitlines content))"

definition example_lib :: pylib where
  "example_lib =
     \<lparr>lib_float = float_plain, lib_tzdata = tzdata_plain, lib_strptime = strptime_plain,
      lib_fromisoformat = fromisoformat_plain, lib_DictReader = DictReader_plain,
      lib_sheet_rows = sheet_rows_plain\<rparr>"

definition newline :: string where
  "newline = [CHR 0x0A]"




text \<open>
  The wording of the specification for the free-text log, for comparison: the instants of
  the matched samples, in the order of their lines.
\<close>

definition is_sample_line :: "string \<Rightarrow> bool" where
  "is_sample_line line \<longleftrightarrow> re_search TEMP_HUMID_PATTERN line \<noteq> None"

definition line_sample :: "tzinfo \<Rightarrow> string \<Rightarrow> datetime option" where
  "line_sample tz line =
     (case re_search TEMP_HUMID_PATTERN line of
        None \<Rightarrow> None
      | Some m \<Rightarrow> (case sample_datetime tz m of Inl _ \<Rightarrow> None | Inr d \<Rightarrow> Some d))"

definition matched_samples :: "tzinfo \<Rightarrow> string list \<Rightarrow> datetime list" where
  "matched_samples tz lines = List.map_filter (line_sample tz) lines"

text \<open>
  A registry row and the same row later: the id and the imported entry are the same, and a
  link to a run, once there, is the same.
\<close>

definition link_kept :: "registry_row \<Rightarrow> registry_row \<Rightarrow> bool" where
  "link_kept r r' \<longleftrightarrow>
     registry_id r' = registry_id r \<and> registry_entry r' = registry_entry r
     \<and> (linked_run_id r \<noteq> None \<longrightarrow> linked_run_id r' = linked_run_id r)"

section \<open>Example files and databases\<close>

definition example_files :: files where
  "example_files =
     [''/data/ties.csv'' \<mapsto>
        ''t_elapsed_s,temp_c,rh_pct'' @ newline
        @ ''10,1,50'' @ newline @ ''0,2,50'' @ newline @ ''10,3,50'' @ newline,
      ''/data/run1.log'' \<mapsto>
        ''boot tz(4)'' @ newline
        @ ''temp_humid_sample: 2026-2-3 13:38:00, temp: 23.5, humid: 45.1%'' @ newline
        @ ''modem ready'' @ newline
        @ ''temp_humid_sample: 2026-2-3 13:37:48, temp: 23.6, humid: 45.0%'' @ newline
        @ ''temp_humid_sample: 2026-2-3 13:38:00, temp: 23.7, humid: 44.9%'' @ newline,
      ''/data/dst.log'' \<mapsto>
        ''temp_humid_sample: 2026-3-29 01:59:59, temp: 23.5, humid: 45.1%'' @ newline
        @ ''temp_humid_sample: 2026-3-29 03:00:00, temp: 23.5, humid: 45.1%'' @ newline,
      ''/data/broken.log'' \<mapsto> ''no samples here'' @ newline,
      ''/data/registry.csv'' \<mapsto>
        ''runID,test status,timestamp,log file'' @ newline
        @ ''T1,Done,45678.5,ties.csv'' @ newline
        @ ''T2,Done,2026-02-03 13:37, run1.log '' @ newline
        @ ''T3,Done,,broken.log'' @ newline,
      ''/data/blank.csv'' \<mapsto>
        ''runID,test status,timestamp,log file'' @ newline
        @ ''  ,Done,45678.5,ties.csv'' @ newline
        @ '',,,'' @ newline,
      ''/data/header_only.xlsx'' \<mapsto> ''runID,test status,log file'' @ newline,
      ''/data/labels.csv'' \<mapsto>
        ''event_type,event_time_s,run_id'' @ newline
        @ ''ADDITION,1.0,'' @ newline
        @ ''ADDITION,2.5,seven'' @ newline]"


definition example_options :: ingest_options where
  "example_options =
     \<lparr>opt_device_id = ''LUNA-001'', opt_diaper_type = ''infant'', opt_sensor_layout = ''front'',
      opt_run_notes = None, opt_default_tz = ''Europe/Berlin''\<rparr>"

definition entry_for :: "string \<Rightarrow> string \<Rightarrow> RunRegistryEntry" where
  "entry_for ext_id log_file =
     \<lparr>entry_external_run_id = ext_id, entry_source_file = ''registry.csv'',
      entry_source_row_number = 2, entry_status = Some ''Done'',
      entry_planned_or_recorded_ts = None, entry_test_device = None, entry_sensor_cap = None,
      entry_diaper_type = None, entry_test_protocol = None, entry_findings_comments = None,
      entry_test_result_ref = None, entry_log_file_ref = Some log_file\<rparr>"

text \<open>
  A registry of three entries: one free for \<^verbatim>\<open>ties.csv\<close>, one for
  \<^verbatim>\<open>run1.log\<close> already linked to run 7, one free for \<^verbatim>\<open>broken.log\<close>.
\<close>

definition example_db :: database where
  "example_db =
     \<lparr>tbl_runs = [], tbl_readings = [], tbl_labels = [],
      tbl_run_registry =
        [\<lparr>registry_id = 1, registry_entry = entry_for ''T1'' ''ties.csv'', linked_run_id = None\<rparr>,
         \<lparr>registry_id = 2, registry_entry = entry_for ''T2'' '' run1.log '',
            linked_run_id = Some 7\<rparr>,
         \<lparr>registry_id = 3, registry_entry = entry_for ''T3'' ''broken.log'',
            linked_run_id = None\<rparr>]\<rparr>"

section \<open>Calls that may raise\<close>

lemma sum_bind_Inr_iff: "sum_bind m f = Inr y \<longleftrightarrow> (\<exists>x. m = Inr x \<and> f x = Inr y)"
  by (cases m) (auto simp: sum_bind_def)


section \<open>Properties of the sampling interval\<close>













section \<open>The device-log parsers\<close>

lemma sample_datetime_tzinfo: "sample_datetime tz m = Inr d \<Longrightarrow> tzinfo d = Some tz"
  by (auto simp: sample_datetime_def datetime_new_def split: if_splits)

lemma device_log_loop_filter:
  "device_log_loop lib tz (filter is_sample_line lines) base acc
     = device_log_loop lib tz lines base acc"
proof (induction lines arbitrary: base acc)
  case Nil
  show ?case by simp
next
  case (Cons line lines)
  show ?case
  proof (cases "is_sample_line line")
    case False
    then show ?thesis using Cons.IH by (simp add: is_sample_line_def)
  next
    case True
    then show ?thesis
      using Cons.IH
      by (auto simp: is_sample_line_def Let_def split: option.splits sum.splits)
  qed
qed

lemma device_log_loop_elapsed:
  assumes "device_log_loop lib tz lines base acc = Inr out"
    and "\<forall>b. base = Some b \<longrightarrow> tzinfo b = Some tz"
  shows "\<exists>new. out = acc @ new
           \<and> length (matched_samples tz lines) = length (filter is_sample_line lines)
           \<and> map t_elapsed_s new =
               map (\<lambda>d. total_seconds
                          (wall_us d - wall_us (case base of Some b \<Rightarrow> b
                                                | None \<Rightarrow> hd (matched_samples tz lines))))
                   (matched_samples tz lines)"
  using assms
proof (induction lines arbitrary: base acc)
  case Nil
  then show ?case by (simp add: matched_samples_def)
next
  case (Cons line lines)
  show ?case
  proof (cases "re_search TEMP_HUMID_PATTERN line")
    case None
    then have skip: "line_sample tz line = None" "\<not> is_sample_line line"
      by (simp_all add: line_sample_def is_sample_line_def)
    from Cons.prems None have rec: "device_log_loop lib tz lines base acc = Inr out" by simp
    have ms: "matched_samples tz (line # lines) = matched_samples tz lines"
      using skip by (simp add: matched_samples_def List.map_filter_simps)
    show ?thesis
      unfolding ms using Cons.IH [OF rec Cons.prems(2)] skip by simp
  next
    case (Some m)
    from Cons.prems(1) Some obtain d temp humid where
      d: "sample_datetime tz m = Inr d"
      and t: "lib_float lib (re_group m 7) = Some temp"
      and h: "lib_float lib (re_group m 8) = Some humid"
      by (auto split: sum.splits option.splits simp: Let_def)
    define b0 where "b0 = (case base of None \<Rightarrow> d | Some b \<Rightarrow> b)"
    define r where "r = \<lparr>t_elapsed_s = total_seconds (datetime_sub (lib_tzdata lib) d b0),
                         temp_c = Some temp, rh_pct = Some humid,
                         timestamp = Some (isoformat (lib_tzdata lib) d), sensor_id = None\<rparr>"
    have tzd: "tzinfo d = Some tz" using d by (rule sample_datetime_tzinfo)
    have tzb: "tzinfo b0 = Some tz"
      using tzd Cons.prems(2) by (auto simp: b0_def split: option.splits)
    have rec: "device_log_loop lib tz lines (Some b0) (acc @ [r]) = Inr out"
      using Cons.prems(1) Some d t h by (simp add: Let_def b0_def r_def)
    have "\<forall>b. Some b0 = Some b \<longrightarrow> tzinfo b = Some tz" using tzb by simp
    from Cons.IH [OF rec this] obtain new where
      new: "out = (acc @ [r]) @ new"
        "length (matched_samples tz lines) = length (filter is_sample_line lines)"
        "map t_elapsed_s new =
           map (\<lambda>d. total_seconds (wall_us d - wall_us b0)) (matched_samples tz lines)"
      by auto
    have ms: "matched_samples tz (line # lines) = d # matched_samples tz lines"
      using Some d by (simp add: matched_samples_def line_sample_def List.map_filter_simps)
    have il: "is_sample_line line" using Some by (simp add: is_sample_line_def)
    have el: "t_elapsed_s r = total_seconds (wall_us d - wall_us b0)"
      using tzd tzb by (simp add: r_def datetime_sub_def)
    have b0': "b0 = (case base of Some b \<Rightarrow> b | None \<Rightarrow> hd (matched_samples tz (line # lines)))"
      by (simp add: b0_def ms split: option.splits)
    show ?thesis
      using new il el by (intro exI [of _ "r # new"]) (simp add: ms flip: b0')
  qed
qed


lemma matched_samples_tzinfo: "d \<in> set (matched_samples tz lines) \<Longrightarrow> tzinfo d = Some tz"
proof (induction lines)
  case Nil
  then show ?case by (simp add: matched_samples_def List.map_filter_simps)
next
  case (Cons line lines)
  then show ?case
    by (auto simp: matched_samples_def List.map_filter_simps line_sample_def
          split: option.splits sum.splits dest: sample_datetime_tzinfo)
qed

text \<open>The example files, evaluated.\<close>

lemma example_run1_parse:
  "parse_device_log example_lib example_files ''/data/run1.log'' ''Europe/Berlin'' =
     Inr [\<lparr>t_elapsed_s = - 12, temp_c = Some (118 / 5), rh_pct = Some 45,
            timestamp = Some ''2026-02-03T13:37:48+01:00'', sensor_id = None\<rparr>,
          \<lparr>t_elapsed_s = 0, temp_c = Some (47 / 2), rh_pct = Some (451 / 10),
            timestamp = Some ''2026-02-03T13:38:00+01:00'', sensor_id = None\<rparr>,
          \<lparr>t_elapsed_s = 0, temp_c = Some (237 / 10), rh_pct = Some (449 / 10),
            timestamp = Some ''2026-02-03T13:38:00+01:00'', sensor_id = None\<rparr>]"
  by code_simp

lemma example_run1_lines:
  "example_files ''/data/run1.log'' = Some content \<Longrightarrow>
     length (filter is_sample_line (splitlines content)) = 3"
proof -
  have "length (filter is_sample_line
          (splitlines (the (example_files ''/data/run1.log'')))) = 3"
    by code_simp
  then show "example_files ''/data/run1.log'' = Some content \<Longrightarrow>
     length (filter is_sample_line (splitlines content)) = 3"
    by simp
qed



text \<open>
  C5 (as the code has it). When the parser accepts a free-text log, the readings before
  sorting correspond one to one to the lines that match the pattern (the other lines
  change nothing), the reading of the first matched line has elapsed time 0, and the
  elapsed time of every reading is its wall-clock date and time minus that of the first
  matched sample. That is the difference of the absolute instants when both have the
  same UTC offset, in particular whenever the zone is a fixed offset from a hint in the
  log.
\<close>

theorem C5_device_log_elapsed:
  assumes "parse_device_log lib fs path default_tz = Inr rs"
  shows "\<exists>content tz raw.
           fs path = Some content
         \<and> detect_tzinfo lib (splitlines content) default_tz = Inr tz
         \<and> device_log_loop lib tz (splitlines content) None [] = Inr raw
         \<and> rs = sort_key t_elapsed_s raw
         \<and> device_log_loop lib tz (filter is_sample_line (splitlines content)) None [] = Inr raw
         \<and> length raw = length (filter is_sample_line (splitlines content))
         \<and> (raw \<noteq> [] \<longrightarrow> t_elapsed_s (hd raw) = 0)
         \<and> map t_elapsed_s raw =
             map (\<lambda>d. total_seconds
                        (wall_us d - wall_us (hd (matched_samples tz (splitlines content)))))
                 (matched_samples tz (splitlines content))
         \<and> (\<forall>d \<in> set (matched_samples tz (splitlines content)).
               utcoffset (lib_tzdata lib) d
                 = utcoffset (lib_tzdata lib) (hd (matched_samples tz (splitlines content)))
               \<longrightarrow> wall_us d - wall_us (hd (matched_samples tz (splitlines content)))
                     = instant_us (lib_tzdata lib) d
                       - instant_us (lib_tzdata lib) (hd (matched_samples tz (splitlines content))))
         \<and> (\<forall>off. tz = Timezone off \<longrightarrow>
               map t_elapsed_s raw =
                 map (\<lambda>d. total_seconds
                            (instant_us (lib_tzdata lib) d
                             - instant_us (lib_tzdata lib)
                                 (hd (matched_samples tz (splitlines content)))))
                     (matched_samples tz (splitlines content)))"
proof -
  from assms obtain content tz raw where c: "fs path = Some content"
    and d: "detect_tzinfo lib (splitlines content) default_tz = Inr tz"
    and r: "device_log_loop lib tz (splitlines content) None [] = Inr raw"
    and s: "rs = sort_key t_elapsed_s raw"
    by (auto simp: parse_device_log_def Let_def sum_bind_Inr_iff split: option.splits)
  let ?lines = "splitlines content"
  let ?ds = "matched_samples tz ?lines"
  from device_log_loop_elapsed [OF r] have
    len: "length ?ds = length (filter is_sample_line ?lines)"
    and el: "map t_elapsed_s raw = map (\<lambda>d. total_seconds (wall_us d - wall_us (hd ?ds))) ?ds"
    by auto
  from el have lraw: "length raw = length ?ds"
    by (metis length_map)
  have first: "raw \<noteq> [] \<longrightarrow> t_elapsed_s (hd raw) = 0"
  proof
    assume ne: "raw \<noteq> []"
    then have "?ds \<noteq> []" using lraw by auto
    then have "hd (map t_elapsed_s raw) = total_seconds (wall_us (hd ?ds) - wall_us (hd ?ds))"
      unfolding el by (simp add: hd_map)
    then show "t_elapsed_s (hd raw) = 0"
      using ne by (simp add: hd_map total_seconds_def)
  qed
  have same: "\<forall>d \<in> set ?ds.
       utcoffset (lib_tzdata lib) d = utcoffset (lib_tzdata lib) (hd ?ds)
       \<longrightarrow> wall_us d - wall_us (hd ?ds)
           = instant_us (lib_tzdata lib) d - instant_us (lib_tzdata lib) (hd ?ds)"
    by (simp add: instant_us_def)
  have fixed: "\<forall>off. tz = Timezone off \<longrightarrow>
       map t_elapsed_s raw =
         map (\<lambda>d. total_seconds (instant_us (lib_tzdata lib) d
                                  - instant_us (lib_tzdata lib) (hd ?ds))) ?ds"
  proof (intro allI impI)
    fix off assume tz: "tz = Timezone off"
    have off: "utcoffset (lib_tzdata lib) x = Some off" if "x \<in> set ?ds" for x
      using matched_samples_tzinfo [OF that] tz by (simp add: utcoffset_def)
    have "wall_us x - wall_us (hd ?ds)
            = instant_us (lib_tzdata lib) x - instant_us (lib_tzdata lib) (hd ?ds)"
      if "x \<in> set ?ds" for x
    proof -
      from that have "?ds \<noteq> []" by auto
      then have "hd ?ds \<in> set ?ds" by simp
      then show ?thesis using off [OF that] off [of "hd ?ds"] by (simp add: instant_us_def)
    qed
    then show "map t_elapsed_s raw =
         map (\<lambda>d. total_seconds (instant_us (lib_tzdata lib) d
                                  - instant_us (lib_tzdata lib) (hd ?ds))) ?ds"
      unfolding el by simp
  qed
  show ?thesis
    using c d r s first same fixed el
    by (intro exI [of _ content] exI [of _ tz] exI [of _ raw])
       (simp add: device_log_loop_filter lraw len)
qed

theorem C5_device_log_elapsed_witness:
  "\<exists>rs raw. parse_device_log example_lib example_files ''/data/run1.log'' ''Europe/Berlin''
              = Inr rs
     \<and> map t_elapsed_s rs = [- 12, 0, 0]
     \<and> rs = sort_key t_elapsed_s raw \<and> length raw = 3 \<and> t_elapsed_s (hd raw) = 0"
proof -
  note run = example_run1_parse
  from C5_device_log_elapsed [OF run] obtain content tz raw where
    c: "example_files ''/data/run1.log'' = Some content"
    and s: "[\<lparr>t_elapsed_s = - 12, temp_c = Some (118 / 5), rh_pct = Some 45,
               timestamp = Some ''2026-02-03T13:37:48+01:00'', sensor_id = None\<rparr>,
             \<lparr>t_elapsed_s = 0, temp_c = Some (47 / 2), rh_pct = Some (451 / 10),
               timestamp = Some ''2026-02-03T13:38:00+01:00'', sensor_id = None\<rparr>,
             \<lparr>t_elapsed_s = 0, temp_c = Some (237 / 10), rh_pct = Some (449 / 10),
               timestamp = Some ''2026-02-03T13:38:00+01:00'', sensor_id = None\<rparr>]
            = sort_key t_elapsed_s raw"
    and l: "length raw = length (filter is_sample_line (splitlines content))"
    and z: "raw \<noteq> [] \<longrightarrow> t_elapsed_s (hd raw) = 0"
    by (elim exE conjE) (rule that; assumption)
  from l have l3: "length raw = 3" by (simp add: example_run1_lines [OF c])
  then have "raw \<noteq> []" by auto
  with z have z0: "t_elapsed_s (hd raw) = 0" by simp
  show ?thesis
    by (rule exI, rule exI [of _ raw], intro conjI, rule run, simp, rule s, rule l3, rule z0)
qed

text \<open>
  C5 as stated fails across a change of the UTC offset of a named zone: the two samples of
  this log are one second apart (00:59:59 and 01:00:00 UTC), and the elapsed time of the
  second is 3601 seconds, the difference of the wall clocks.
\<close>

theorem C5_wall_clock_counterexample:
  "parse_device_log example_lib example_files ''/data/dst.log'' ''Europe/Berlin'' =
     Inr [\<lparr>t_elapsed_s = 0, temp_c = Some (47 / 2), rh_pct = Some (451 / 10),
            timestamp = Some ''2026-03-29T01:59:59+01:00'', sensor_id = None\<rparr>,
          \<lparr>t_elapsed_s = 3601, temp_c = Some (47 / 2), rh_pct = Some (451 / 10),
            timestamp = Some ''2026-03-29T03:00:00+02:00'', sensor_id = None\<rparr>]
   \<and> total_seconds
        (instant_us tzdata_plain
           \<lparr>year = 2026, month = 3, day = 29, hour = 3, minute = 0, second = 0,
            microsecond = 0, tzinfo = Some (ZoneInfo ''Europe/Berlin'')\<rparr>
         - instant_us tzdata_plain
           \<lparr>year = 2026, month = 3, day = 29, hour = 1, minute = 59, second = 59,
            microsecond = 0, tzinfo = Some (ZoneInfo ''Europe/Berlin'')\<rparr>) = 1"
  by code_simp

text \<open>
  The result of a stable sort on totally ordered keys does not depend on the algorithm:
  every sorted rearrangement that keeps the order among equal keys is the result of
  \<open>sort_key\<close>.
\<close>

lemma stable_sort_unique:
  assumes "mset ys = mset xs" and "sorted (map f ys)"
    and "\<And>k. filter (\<lambda>x. f x = k) ys = filter (\<lambda>x. f x = k) xs"
  shows "ys = sort_key f xs"
proof (rule properties_for_sort_key [symmetric])
  show "mset ys = mset xs" by (rule assms(1))
  show "sorted (map f ys)" by (rule assms(2))
  fix k
  have "filter (\<lambda>x. f x = f k) ys = filter (\<lambda>x. f x = f k) xs" by (rule assms(3))
  moreover have "(\<lambda>x. f k = f x) = (\<lambda>x. f x = f k)" by auto
  ultimately show "filter (\<lambda>x. f k = f x) ys = filter (\<lambda>x. f k = f x) xs" by simp
qed



section \<open>Reconciliation and ingest\<close>

lemma find_by_log_file_ref_Some:
  "find_by_log_file_ref db name = Some e \<Longrightarrow>
     e \<in> set (tbl_run_registry db) \<and> sql_trim (entry_log_file_ref (registry_entry e)) = Some name"
  by (auto simp: find_by_log_file_ref_def find_Some_iff)

lemma find_by_log_file_ref_None:
  "find_by_log_file_ref db name = None \<longleftrightarrow>
     (\<forall>e \<in> set (tbl_run_registry db). sql_trim (entry_log_file_ref (registry_entry e)) \<noteq> Some name)"
  by (auto simp: find_by_log_file_ref_def find_None_iff)

lemma ingest_file_Inr:
  assumes "ingest_file lib fs opts db p = Inr (db', rid)"
  shows "\<exists>e readings md.
           find_by_log_file_ref db (path_name p) = Some e \<and> linked_run_id e = None
         \<and> parse_log_file lib fs p (opt_default_tz opts) = Inr readings \<and> readings \<noteq> []
         \<and> rid = next_id (map run_id (tbl_runs db))
         \<and> db' = attach_run (insert_readings (fst (create_run db md)) rid readings)
                              (registry_id e) rid"
  using assms
  by (auto simp: ingest_file_def Let_def sum_bind_Inr_iff create_run_def
           split: option.splits if_splits)

lemma ingest_file_runs:
  assumes "ingest_file lib fs opts db p = Inr (db', rid)"
  shows "\<exists>row. tbl_runs db' = tbl_runs db @ [row] \<and> run_id row = rid"
  using ingest_file_Inr [OF assms]
  by (auto simp: attach_run_def insert_readings_def create_run_def Let_def)

lemma ingest_file_no_entry:
  assumes "find_by_log_file_ref db (path_name p) = None"
  shows "ingest_file lib fs opts db p =
           Inl (IngestError (''No run_registry entry matches log file '' @ quoted (path_name p)
                             @ ''. Import/update the registry source first.''))"
  using assms by (simp add: ingest_file_def Let_def)

lemma ingest_file_linked:
  assumes "find_by_log_file_ref db (path_name p) = Some e" and "linked_run_id e = Some k"
  shows "ingest_file lib fs opts db p =
           Inl (IngestError (''run_registry entry for '' @ quoted (path_name p)
                             @ '' is already linked to run_id='' @ str_int k))"
  using assms by (simp add: ingest_file_def Let_def)

text \<open>One file that raises: the call raises and the database is as before.\<close>

lemma ingest_logs_single_Inl:
  "ingest_file lib fs opts db p = Inl e \<Longrightarrow> ingest_logs lib fs opts db [p] = (db, Inl e)"
  by (simp add: ingest_logs_def get_connection_def rollback_def)

text \<open>The registry rows after attaching a run to a free entry.\<close>

lemma link_kept_refl: "list_all2 link_kept rows rows"
  by (simp add: list_all2_refl link_kept_def)

lemma link_kept_trans:
  assumes "list_all2 link_kept xs ys" and "list_all2 link_kept ys zs"
  shows "list_all2 link_kept xs zs"
proof (rule list_all2_trans [OF _ assms])
  fix a b c
  assume "link_kept a b" and "link_kept b c"
  then show "link_kept a c" by (auto simp: link_kept_def)
qed

lemma link_kept_ids: "list_all2 link_kept xs ys \<Longrightarrow> map registry_id ys = map registry_id xs"
  by (induction rule: list_all2_induct) (auto simp: link_kept_def)

lemma attach_free_link_kept:
  assumes "distinct (map registry_id rows)" and "e \<in> set rows" and "linked_run_id e = None"
  shows "list_all2 link_kept rows
           (map (\<lambda>r. if registry_id r = registry_id e then r\<lparr>linked_run_id := Some rid\<rparr> else r)
                rows)"
proof -
  have same: "r = e" if "r \<in> set rows" "registry_id r = registry_id e" for r
    using that assms(1,2) by (meson distinct_map inj_onD)
  have free: "linked_run_id r = None" if "r \<in> set rows" "registry_id r = registry_id e" for r
    using same [OF that] assms(3) by simp
  show ?thesis
    unfolding list_all2_map2
    by (rule list_all2_same [THEN iffD2]) (use free in \<open>auto simp: link_kept_def\<close>)
qed

lemma ingest_file_link_kept:
  assumes "ingest_file lib fs opts db p = Inr (db', rid)"
    and "distinct (map registry_id (tbl_run_registry db))"
  shows "list_all2 link_kept (tbl_run_registry db) (tbl_run_registry db')"
proof -
  from ingest_file_Inr [OF assms(1)] obtain e readings md where
    f: "find_by_log_file_ref db (path_name p) = Some e" and free: "linked_run_id e = None"
    and db': "db' = attach_run (insert_readings (fst (create_run db md)) rid readings)
                               (registry_id e) rid"
    by blast
  from f have "e \<in> set (tbl_run_registry db)" by (simp add: find_by_log_file_ref_Some)
  from attach_free_link_kept [OF assms(2) this free] show ?thesis
    by (simp add: db' attach_run_def insert_readings_def create_run_def Let_def)
qed

text \<open>The loop over the files.\<close>

lemma ingest_loop_append:
  "ingest_loop lib fs opts conn (ps1 @ ps2) acc =
     (case ingest_loop lib fs opts conn ps1 acc of
        (c, Inl e) \<Rightarrow> (c, Inl e)
      | (c, Inr ids) \<Rightarrow> ingest_loop lib fs opts c ps2 ids)"
  by (induction ps1 arbitrary: conn acc) (auto split: sum.splits prod.splits)

lemma ingest_loop_committed:
  assumes "ingest_loop lib fs opts conn ps acc = (conn', r)"
    and "committed conn = working conn"
  shows "committed conn' = working conn'"
  using assms
proof (induction ps arbitrary: conn acc)
  case Nil
  then show ?case by simp
next
  case (Cons p ps)
  show ?case
  proof (cases "ingest_file lib fs opts (working conn) p")
    case (Inl e)
    with Cons.prems show ?thesis by simp
  next
    case (Inr res)
    obtain db1 rid where res: "res = (db1, rid)" by (cases res)
    from Cons.prems(1) Inr res
    have "ingest_loop lib fs opts (commit (conn\<lparr>working := db1\<rparr>)) ps (acc @ [rid]) = (conn', r)"
      by simp
    then show ?thesis
      by (rule Cons.IH) (simp add: commit_def)
  qed
qed

lemma ingest_loop_link_kept:
  assumes "ingest_loop lib fs opts conn ps acc = (conn', r)"
    and "distinct (map registry_id (tbl_run_registry (working conn)))"
  shows "list_all2 link_kept (tbl_run_registry (working conn)) (tbl_run_registry (working conn'))"
  using assms
proof (induction ps arbitrary: conn acc)
  case Nil
  then show ?case by (simp add: link_kept_refl)
next
  case (Cons p ps)
  show ?case
  proof (cases "ingest_file lib fs opts (working conn) p")
    case (Inl e)
    with Cons.prems show ?thesis by (simp add: link_kept_refl)
  next
    case (Inr res)
    obtain db1 rid where res: "res = (db1, rid)" by (cases res)
    let ?c = "commit (conn\<lparr>working := db1\<rparr>)"
    from Inr res have ok: "ingest_file lib fs opts (working conn) p = Inr (db1, rid)" by simp
    have step: "list_all2 link_kept (tbl_run_registry (working conn)) (tbl_run_registry db1)"
      using ok Cons.prems(2) by (rule ingest_file_link_kept)
    have w: "working ?c = db1" by (simp add: commit_def)
    have "distinct (map registry_id (tbl_run_registry (working ?c)))"
      using Cons.prems(2) link_kept_ids [OF step] by (simp add: w)
    moreover from Cons.prems(1) ok
    have "ingest_loop lib fs opts ?c ps (acc @ [rid]) = (conn', r)" by simp
    ultimately have "list_all2 link_kept (tbl_run_registry (working ?c))
                       (tbl_run_registry (working conn'))"
      using Cons.IH by blast
    with step show ?thesis by (simp add: w link_kept_trans)
  qed
qed

lemma ingest_loop_run_ids:
  assumes "ingest_loop lib fs opts conn ps acc = (conn', Inr ids)"
    and "set acc \<subseteq> run_id ` set (tbl_runs (working conn))"
  shows "set ids \<subseteq> run_id ` set (tbl_runs (working conn')) \<and> length ids = length acc + length ps"
  using assms
proof (induction ps arbitrary: conn acc)
  case Nil
  then show ?case by simp
next
  case (Cons p ps)
  show ?case
  proof (cases "ingest_file lib fs opts (working conn) p")
    case (Inl e)
    with Cons.prems show ?thesis by simp
  next
    case (Inr res)
    obtain db1 rid where res: "res = (db1, rid)" by (cases res)
    let ?c = "commit (conn\<lparr>working := db1\<rparr>)"
    from Inr res have ok: "ingest_file lib fs opts (working conn) p = Inr (db1, rid)" by simp
    from ingest_file_runs [OF ok] obtain row where
      row: "tbl_runs db1 = tbl_runs (working conn) @ [row]" "run_id row = rid"
      by blast
    have w: "working ?c = db1" by (simp add: commit_def)
    have "set (acc @ [rid]) \<subseteq> run_id ` set (tbl_runs (working ?c))"
      using Cons.prems(2) row by (auto simp: w)
    moreover from Cons.prems(1) ok
    have "ingest_loop lib fs opts ?c ps (acc @ [rid]) = (conn', Inr ids)" by simp
    ultimately show ?thesis
      using Cons.IH by fastforce
  qed
qed

text \<open>The whole call in terms of the loop: what is committed at the end is what the loop left.\<close>

lemma ingest_logs_loop:
  assumes "ingest_loop lib fs opts (get_connection db) ps [] = (conn, r)"
  shows "ingest_logs lib fs opts db ps = (working conn, r) \<and> committed conn = working conn"
proof -
  have cw: "committed conn = working conn"
    using assms by (rule ingest_loop_committed) (simp add: get_connection_def)
  show ?thesis
    using assms cw by (cases r) (simp_all add: ingest_logs_def rollback_def commit_def)
qed

lemma connection_eq:
  "committed (c::connection) = working c \<Longrightarrow> c = get_connection (working c)"
  by (simp add: get_connection_def)

text \<open>
  C1. A file is ingested only if some registry entry has its trimmed log file reference
  equal to the base name of the file and no linked run; then exactly one run is added.
  If no entry has that reference, or the entry found is already linked, the call raises
  the ingest error (which names the linked run id in the second case) and the database
  is as before. When the registry ids are distinct, no call ever changes the link of an
  entry that has one: an entry is linked at most once.
\<close>

theorem C1_ingest_needs_unlinked_entry:
  "(\<forall>db' rid. ingest_file lib fs opts db p = Inr (db', rid) \<longrightarrow>
      (\<exists>e \<in> set (tbl_run_registry db).
          sql_trim (entry_log_file_ref (registry_entry e)) = Some (path_name p)
          \<and> linked_run_id e = None)
      \<and> (\<exists>row. tbl_runs db' = tbl_runs db @ [row] \<and> run_id row = rid))
   \<and> ((\<forall>e \<in> set (tbl_run_registry db).
          sql_trim (entry_log_file_ref (registry_entry e)) \<noteq> Some (path_name p)) \<longrightarrow>
        ingest_logs lib fs opts db [p] =
          (db, Inl (IngestError (''No run_registry entry matches log file ''
                                 @ quoted (path_name p)
                                 @ ''. Import/update the registry source first.''))))
   \<and> (\<forall>e k. find_by_log_file_ref db (path_name p) = Some e \<and> linked_run_id e = Some k \<longrightarrow>
        ingest_logs lib fs opts db [p] =
          (db, Inl (IngestError (''run_registry entry for '' @ quoted (path_name p)
                                 @ '' is already linked to run_id='' @ str_int k))))
   \<and> ((\<forall>e \<in> set (tbl_run_registry db).
          sql_trim (entry_log_file_ref (registry_entry e)) = Some (path_name p)
          \<longrightarrow> linked_run_id e \<noteq> None) \<longrightarrow>
        (\<exists>msg. ingest_logs lib fs opts db [p] = (db, Inl (IngestError msg))))
   \<and> (distinct (map registry_id (tbl_run_registry db)) \<longrightarrow>
        list_all2 link_kept (tbl_run_registry db)
          (tbl_run_registry (fst (ingest_logs lib fs opts db ps))))"
proof (intro conjI allI impI)
  fix db' rid
  assume ok: "ingest_file lib fs opts db p = Inr (db', rid)"
  from ingest_file_Inr [OF ok] obtain e where
    "find_by_log_file_ref db (path_name p) = Some e" and "linked_run_id e = None"
    by blast
  then show "\<exists>e \<in> set (tbl_run_registry db).
          sql_trim (entry_log_file_ref (registry_entry e)) = Some (path_name p)
          \<and> linked_run_id e = None"
    using find_by_log_file_ref_Some by blast
  show "\<exists>row. tbl_runs db' = tbl_runs db @ [row] \<and> run_id row = rid"
    using ok by (rule ingest_file_runs)
next
  assume "\<forall>e \<in> set (tbl_run_registry db).
            sql_trim (entry_log_file_ref (registry_entry e)) \<noteq> Some (path_name p)"
  then have "find_by_log_file_ref db (path_name p) = None"
    by (simp add: find_by_log_file_ref_None)
  then show "ingest_logs lib fs opts db [p] =
          (db, Inl (IngestError (''No run_registry entry matches log file ''
                                 @ quoted (path_name p)
                                 @ ''. Import/update the registry source first.'')))"
    by (intro ingest_logs_single_Inl ingest_file_no_entry)
next
  fix e k
  assume "find_by_log_file_ref db (path_name p) = Some e \<and> linked_run_id e = Some k"
  then show "ingest_logs lib fs opts db [p] =
          (db, Inl (IngestError (''run_registry entry for '' @ quoted (path_name p)
                                 @ '' is already linked to run_id='' @ str_int k)))"
    by (intro ingest_logs_single_Inl ingest_file_linked) auto
next
  assume all: "\<forall>e \<in> set (tbl_run_registry db).
          sql_trim (entry_log_file_ref (registry_entry e)) = Some (path_name p)
          \<longrightarrow> linked_run_id e \<noteq> None"
  show "\<exists>msg. ingest_logs lib fs opts db [p] = (db, Inl (IngestError msg))"
  proof (cases "find_by_log_file_ref db (path_name p)")
    case None
    then show ?thesis
      using ingest_logs_single_Inl [OF ingest_file_no_entry] by blast
  next
    case (Some e)
    with all obtain k where "linked_run_id e = Some k"
      using find_by_log_file_ref_Some by blast
    with Some show ?thesis
      using ingest_logs_single_Inl [OF ingest_file_linked] by blast
  qed
next
  assume d: "distinct (map registry_id (tbl_run_registry db))"
  obtain conn r where loop: "ingest_loop lib fs opts (get_connection db) ps [] = (conn, r)"
    by (cases "ingest_loop lib fs opts (get_connection db) ps []")
  from ingest_loop_link_kept [OF loop] d
  have "list_all2 link_kept (tbl_run_registry db) (tbl_run_registry (working conn))"
    by (simp add: get_connection_def)
  then show "list_all2 link_kept (tbl_run_registry db)
          (tbl_run_registry (fst (ingest_logs lib fs opts db ps)))"
    using ingest_logs_loop [OF loop] by simp
qed

text \<open>The example database, evaluated.\<close>

lemma example_ingest_ties:
  "map_sum id snd (ingest_file example_lib example_files example_options example_db
                     ''/data/ties.csv'') = Inr 1"
  by code_simp

lemma example_ingest_broken:
  "ingest_file example_lib example_files example_options
     (fst (ingest_logs example_lib example_files example_options example_db [''/data/ties.csv'']))
     ''/data/broken.log'' = Inl (IngestError ''No readings parsed from /data/broken.log'')"
  by code_simp

lemma example_ingest_ties_ids:
  "snd (ingest_logs example_lib example_files example_options example_db [''/data/ties.csv''])
     = Inr [1]"
  by code_simp

lemma example_find_run1:
  "map_option linked_run_id (find_by_log_file_ref example_db ''run1.log'') = Some (Some 7)"
  by code_simp

lemma example_paths:
  "path_name ''/data/nothing.csv'' = ''nothing.csv''"
  "path_name ''/data/run1.log'' = ''run1.log''"
  by code_simp+

lemma example_no_entry:
  "\<forall>e \<in> set (tbl_run_registry example_db).
      sql_trim (entry_log_file_ref (registry_entry e)) \<noteq> Some ''nothing.csv''"
  by (simp add: example_db_def entry_for_def sql_trim_def rstrip_by_def)

lemma example_distinct: "distinct (map registry_id (tbl_run_registry example_db))"
  by (simp add: example_db_def)

theorem C1_ingest_needs_unlinked_entry_witness:
  "(\<exists>db'. ingest_file example_lib example_files example_options example_db ''/data/ties.csv''
            = Inr (db', 1)
      \<and> (\<exists>e \<in> set (tbl_run_registry example_db).
            sql_trim (entry_log_file_ref (registry_entry e)) = Some (path_name ''/data/ties.csv'')
            \<and> linked_run_id e = None))
   \<and> ingest_logs example_lib example_files example_options example_db [''/data/nothing.csv''] =
       (example_db, Inl (IngestError (''No run_registry entry matches log file ''
                                      @ quoted ''nothing.csv''
                                      @ ''. Import/update the registry source first.'')))
   \<and> ingest_logs example_lib example_files example_options example_db [''/data/run1.log''] =
       (example_db, Inl (IngestError (''run_registry entry for '' @ quoted ''run1.log''
                                      @ '' is already linked to run_id=7'')))
   \<and> list_all2 link_kept (tbl_run_registry example_db)
        (tbl_run_registry (fst (ingest_logs example_lib example_files example_options
                                  example_db [''/data/ties.csv'', ''/data/run1.log''])))"
proof (intro conjI)
  note c1 = C1_ingest_needs_unlinked_entry [of example_lib example_files example_options example_db]
  obtain db' rid where
    ok: "ingest_file example_lib example_files example_options example_db ''/data/ties.csv''
           = Inr (db', rid)"
    using example_ingest_ties
    by (cases "ingest_file example_lib example_files example_options example_db ''/data/ties.csv''")
       auto
  with example_ingest_ties have rid: "rid = 1" by simp
  from c1 [of "''/data/ties.csv''", THEN conjunct1, rule_format, OF ok, THEN conjunct1] ok rid
  show "\<exists>db'. ingest_file example_lib example_files example_options example_db ''/data/ties.csv''
            = Inr (db', 1)
      \<and> (\<exists>e \<in> set (tbl_run_registry example_db).
            sql_trim (entry_log_file_ref (registry_entry e)) = Some (path_name ''/data/ties.csv'')
            \<and> linked_run_id e = None)"
    by blast
  from c1 [of "''/data/nothing.csv''", THEN conjunct2, THEN conjunct1] example_no_entry
  show "ingest_logs example_lib example_files example_options example_db [''/data/nothing.csv''] =
       (example_db, Inl (IngestError (''No run_registry entry matches log file ''
                                      @ quoted ''nothing.csv''
                                      @ ''. Import/update the registry source first.'')))"
    by (simp only: example_paths)
  obtain e where e: "find_by_log_file_ref example_db ''run1.log'' = Some e"
    and k: "linked_run_id e = Some 7"
    using example_find_run1 by (cases "find_by_log_file_ref example_db ''run1.log''") auto
  have seven: "str_int 7 = ''7''" by (simp add: str_int_def digit_char_def)
  from c1 [of "''/data/run1.log''", THEN conjunct2, THEN conjunct2, THEN conjunct1,
            rule_format, of e 7] e k
  show "ingest_logs example_lib example_files example_options example_db [''/data/run1.log''] =
       (example_db, Inl (IngestError (''run_registry entry for '' @ quoted ''run1.log''
                                      @ '' is already linked to run_id=7'')))"
    by (simp add: example_paths seven)
  from c1 [of _ "[''/data/ties.csv'', ''/data/run1.log'']", THEN conjunct2, THEN conjunct2,
            THEN conjunct2, THEN conjunct2] example_distinct
  show "list_all2 link_kept (tbl_run_registry example_db)
        (tbl_run_registry (fst (ingest_logs example_lib example_files example_options
                                  example_db [''/data/ties.csv'', ''/data/run1.log''])))"
    by blast
qed

text \<open>
  C7. The files are ingested one after the other, each committed before the next is read.
  When the files before one that raises were ingested into a state \<open>db1\<close> with run ids
  \<open>ids\<close>, the call on the whole list raises the exception of that file and returns no
  ids, and the database it leaves is \<open>db1\<close>: it holds the runs of the earlier files.
\<close>

theorem C7_failure_keeps_earlier_files:
  assumes "ingest_logs lib fs opts db ps1 = (db1, Inr ids)"
    and "ingest_file lib fs opts db1 p = Inl e"
  shows "ingest_logs lib fs opts db (ps1 @ p # ps2) = (db1, Inl e)
       \<and> length ids = length ps1
       \<and> set ids \<subseteq> run_id ` set (tbl_runs db1)"
proof -
  obtain conn r where loop: "ingest_loop lib fs opts (get_connection db) ps1 [] = (conn, r)"
    by (cases "ingest_loop lib fs opts (get_connection db) ps1 []")
  from ingest_logs_loop [OF loop] assms(1)
  have w: "working conn = db1" and r: "r = Inr ids" and cw: "committed conn = working conn"
    by simp_all
  have "ingest_file lib fs opts (working conn) p = Inl e"
    using assms(2) unfolding w .
  then have fail: "ingest_loop lib fs opts conn (p # ps2) ids = (conn, Inl e)"
    by simp
  have "ingest_loop lib fs opts (get_connection db) (ps1 @ p # ps2) [] = (conn, Inl e)"
    by (simp add: ingest_loop_append loop r fail del: ingest_loop.simps)
  from ingest_logs_loop [OF this]
  have whole: "ingest_logs lib fs opts db (ps1 @ p # ps2) = (db1, Inl e)"
    by (simp add: w)
  from ingest_loop_run_ids [of lib fs opts "get_connection db" ps1 "[]" conn ids] loop r
  have "set ids \<subseteq> run_id ` set (tbl_runs db1) \<and> length ids = length ps1"
    by (simp add: w)
  with whole show ?thesis by simp
qed

theorem C7_failure_keeps_earlier_files_witness:
  "\<exists>db1. ingest_logs example_lib example_files example_options example_db [''/data/ties.csv'']
            = (db1, Inr [1])
     \<and> ingest_logs example_lib example_files example_options example_db
           ([''/data/ties.csv''] @ ''/data/broken.log'' # [''/data/run1.log''])
         = (db1, Inl (IngestError ''No readings parsed from /data/broken.log''))
     \<and> 1 \<in> run_id ` set (tbl_runs db1)"
proof -
  define db1 where
    "db1 = fst (ingest_logs example_lib example_files example_options example_db
                  [''/data/ties.csv''])"
  have first: "ingest_logs example_lib example_files example_options example_db
                 [''/data/ties.csv''] = (db1, Inr [1])"
    using example_ingest_ties_ids by (simp add: db1_def prod_eq_iff)
  have second: "ingest_file example_lib example_files example_options db1 ''/data/broken.log''
                  = Inl (IngestError ''No readings parsed from /data/broken.log'')"
    using example_ingest_broken by (simp add: db1_def)
  from C7_failure_keeps_earlier_files [OF first second, of "[''/data/run1.log'']"] first
  show ?thesis by (intro exI [of _ db1]) simp
qed

section \<open>Label import and registry import\<close>




lemma collect_all_Inr: "\<forall>x \<in> set xs. f x = Inr (g x) \<Longrightarrow> collect f xs = Inr (map g xs)"
  by (induction xs) (auto simp: sum_bind_def)














lemma map_filter_all_None: "List.map_filter id (map (\<lambda>_. None) xs) = []"
  by (induction xs) (simp_all add: List.map_filter_simps)

lemma map_row_blank:
  assumes "normalized ''runid'' = Some h" and "clean_str (row h) = None"
  shows "map_row lib row normalized path idx default_tz = Inr None"
  using assms by (simp add: map_row_def)

lemma map_rows_blank:
  assumes "normalized ''runid'' = Some h" and "\<forall>row \<in> set rows. clean_str (row h) = None"
  shows "map_rows lib rows normalized path default_tz = Inr []"
proof -
  let ?f = "\<lambda>(idx, row). map_row lib row normalized path idx default_tz"
  let ?xs = "zip [2 .. int (length rows) + 1] rows"
  have "\<forall>x \<in> set ?xs. ?f x = Inr ((\<lambda>_. None) x)"
    using assms by (auto simp: map_row_blank dest: set_zip_rightD)
  then have "collect ?f ?xs = Inr (map (\<lambda>_. None) ?xs)"
    by (rule collect_all_Inr [of ?xs ?f "\<lambda>_. None"])
  then show ?thesis
    unfolding map_rows_def by (simp only: sum_bind_def sum.case map_filter_all_None)
qed

lemma parse_registry_csv_rows:
  assumes "fs path = Some content" and "lib_DictReader lib content = (Some names, rows)"
  shows "parse_registry_csv lib fs path default_tz =
           sum_bind (validate_required_headers (dict_of (map (\<lambda>h. (normalize_header h, h)) names)))
             (\<lambda>_. map_rows lib rows (dict_of (map (\<lambda>h. (normalize_header h, h)) names))
                     path default_tz)"
  unfolding parse_registry_csv_def by (simp only: assms option.case prod.case Let_def)

lemma parse_registry_xlsx_rows:
  assumes "fs path = Some content" and "lib_sheet_rows lib content sheet_name = Inr grid"
  shows "parse_registry_xlsx lib fs path sheet_name default_tz =
           (case grid of
              [] \<Rightarrow> Inr []
            | headers # data_rows \<Rightarrow>
                (let normalized = dict_of (map (\<lambda>h. (normalize_header h, h))
                                               (filter (\<lambda>h. h \<noteq> []) headers));
                     header_to_pos = dict_of (zip headers [0 ..< length headers]);
                     row_dict = (\<lambda>values header.
                                   case header_to_pos header of
                                     None \<Rightarrow> None
                                   | Some pos \<Rightarrow>
                                       Some (if pos < length values then values ! pos else []))
                 in sum_bind (validate_required_headers normalized)
                      (\<lambda>_. map_rows lib (map row_dict data_rows) normalized path default_tz)))"
  unfolding parse_registry_xlsx_def by (simp only: assms option.case sum_bind_def sum.case)

lemma map_rows_Nil: "map_rows lib [] normalized path default_tz = Inr []"
  by (simp add: map_rows_def sum_bind_def List.map_filter_simps)

text \<open>
  C10. When the parsing of the registry file yields no entries, the import raises the
  registry import error "No registry rows found" and the database is as before. The
  parsing yields no entries for a CSV file all of whose rows have a blank external run
  id (among them the file with a header row only), and for a sheet that is empty or has
  only a valid header row.
\<close>

theorem C10_no_entries_raises:
  "((py_lower (path_suffix p) = ''.csv'' \<and> parse_registry_csv lib fs p tz = Inr [])
      \<or> (py_lower (path_suffix p) = ''.xlsx''
          \<and> parse_registry_xlsx lib fs p sheet tz = Inr []) \<longrightarrow>
      import_run_registry lib fs db p sheet tz =
        (db, Inl (RegistryImportError (''No registry rows found in '' @ path_str p))))
   \<and> (fs p = Some content \<and> lib_DictReader lib content = (Some names, rows)
       \<and> dict_of (map (\<lambda>h. (normalize_header h, h)) names) ''runid'' = Some h
       \<and> validate_required_headers (dict_of (map (\<lambda>h. (normalize_header h, h)) names)) = Inr ()
       \<and> (\<forall>row \<in> set rows. clean_str (row h) = None) \<longrightarrow>
      parse_registry_csv lib fs p tz = Inr [])
   \<and> (fs p = Some content
       \<and> (lib_sheet_rows lib content sheet = Inr []
           \<or> (lib_sheet_rows lib content sheet = Inr [headers]
               \<and> validate_required_headers
                    (dict_of (map (\<lambda>h. (normalize_header h, h)) (filter (\<lambda>h. h \<noteq> []) headers)))
                  = Inr ())) \<longrightarrow>
      parse_registry_xlsx lib fs p sheet tz = Inr [])"
proof (intro conjI impI)
  assume "(py_lower (path_suffix p) = ''.csv'' \<and> parse_registry_csv lib fs p tz = Inr [])
      \<or> (py_lower (path_suffix p) = ''.xlsx'' \<and> parse_registry_xlsx lib fs p sheet tz = Inr [])"
  then show "import_run_registry lib fs db p sheet tz =
        (db, Inl (RegistryImportError (''No registry rows found in '' @ path_str p)))"
    by (elim disjE conjE) (simp_all add: import_run_registry_def Let_def)
next
  assume a: "fs p = Some content \<and> lib_DictReader lib content = (Some names, rows)
       \<and> dict_of (map (\<lambda>h. (normalize_header h, h)) names) ''runid'' = Some h
       \<and> validate_required_headers (dict_of (map (\<lambda>h. (normalize_header h, h)) names)) = Inr ()
       \<and> (\<forall>row \<in> set rows. clean_str (row h) = None)"
  let ?n = "dict_of (map (\<lambda>h. (normalize_header h, h)) names)"
  from a have c: "fs p = Some content" and rd: "lib_DictReader lib content = (Some names, rows)"
    and h: "?n ''runid'' = Some h" and v: "validate_required_headers ?n = Inr ()"
    and blank: "\<forall>row \<in> set rows. clean_str (row h) = None"
    by blast+
  have "map_rows lib rows ?n p tz = Inr []"
    using h blank by (rule map_rows_blank)
  then show "parse_registry_csv lib fs p tz = Inr []"
    unfolding parse_registry_csv_rows [of fs p content lib names rows tz, OF c rd]
    by (simp only: v sum_bind_def sum.case)
next
  assume a: "fs p = Some content
       \<and> (lib_sheet_rows lib content sheet = Inr []
           \<or> (lib_sheet_rows lib content sheet = Inr [headers]
               \<and> validate_required_headers
                    (dict_of (map (\<lambda>h. (normalize_header h, h)) (filter (\<lambda>h. h \<noteq> []) headers)))
                  = Inr ()))"
  then have c: "fs p = Some content" by blast
  from a consider
      (empty) "lib_sheet_rows lib content sheet = Inr []"
    | (header) "lib_sheet_rows lib content sheet = Inr [headers]"
        "validate_required_headers
           (dict_of (map (\<lambda>h. (normalize_header h, h)) (filter (\<lambda>h. h \<noteq> []) headers))) = Inr ()"
    by blast
  then show "parse_registry_xlsx lib fs p sheet tz = Inr []"
  proof cases
    case empty
    show ?thesis
      unfolding parse_registry_xlsx_rows [of fs p content lib sheet "[]" tz, OF c empty]
      by simp
  next
    case header
    show ?thesis
      unfolding parse_registry_xlsx_rows [of fs p content lib sheet "[headers]" tz, OF c header(1)]
      by (simp add: Let_def header(2) sum_bind_def map_rows_Nil)
  qed
qed

lemma example_blank_reader:
  "example_files ''/data/blank.csv'' = Some content \<Longrightarrow>
   lib_DictReader example_lib content =
     (Some [''runID'', ''test status'', ''timestamp'', ''log file''],
      [dict_of (zip [''runID'', ''test status'', ''timestamp'', ''log file'']
                    [''  '', ''Done'', ''45678.5'', ''ties.csv'']),
       dict_of (zip [''runID'', ''test status'', ''timestamp'', ''log file''] ['''', '''', '''', ''''])])"
  by (auto simp: example_files_def example_lib_def DictReader_plain_def splitlines_def
        is_linebreak_def newline_def)

lemma example_blank_headers:
  "dict_of (map (\<lambda>h. (normalize_header h, h)) [''runID'', ''test status'', ''timestamp'', ''log file''])
     ''runid'' = Some ''runID''"
  "validate_required_headers
     (dict_of (map (\<lambda>h. (normalize_header h, h))
                   [''runID'', ''test status'', ''timestamp'', ''log file''])) = Inr ()"
  by code_simp+

lemma example_blank_ids:
  "clean_str (dict_of (zip [''runID'', ''test status'', ''timestamp'', ''log file'']
                           [''  '', ''Done'', ''45678.5'', ''ties.csv'']) ''runID'') = None"
  "clean_str (dict_of (zip [''runID'', ''test status'', ''timestamp'', ''log file'']
                           ['''', '''', '''', '''']) ''runID'') = None"
  by code_simp+

lemma example_header_only:
  "example_files ''/data/header_only.xlsx'' = Some content \<Longrightarrow>
   lib_sheet_rows example_lib content ''test runs'' = Inr [[''runID'', ''test status'', ''log file'']]"
  by (auto simp: example_files_def example_lib_def sheet_rows_plain_def splitlines_def
        is_linebreak_def newline_def)

lemma example_header_only_valid:
  "validate_required_headers
     (dict_of (map (\<lambda>h. (normalize_header h, h))
                   (filter (\<lambda>h. h \<noteq> []) [''runID'', ''test status'', ''log file'']))) = Inr ()"
  by code_simp

lemma example_registry_paths:
  "py_lower (path_suffix ''/data/blank.csv'') = ''.csv''"
  "py_lower (path_suffix ''/data/header_only.xlsx'') = ''.xlsx''"
  "path_str ''/data/blank.csv'' = ''/data/blank.csv''"
  "path_str ''/data/header_only.xlsx'' = ''/data/header_only.xlsx''"
  by code_simp+

theorem C10_no_entries_raises_witness:
  "import_run_registry example_lib example_files example_db ''/data/blank.csv'' ''test runs''
       ''Europe/Berlin''
     = (example_db, Inl (RegistryImportError ''No registry rows found in /data/blank.csv''))
   \<and> import_run_registry example_lib example_files example_db ''/data/header_only.xlsx''
       ''test runs'' ''Europe/Berlin''
     = (example_db, Inl (RegistryImportError ''No registry rows found in /data/header_only.xlsx''))"
proof -
  let ?hdr = "[''runID'', ''test status'', ''timestamp'', ''log file'']"
  let ?r1 = "dict_of (zip ?hdr [''  '', ''Done'', ''45678.5'', ''ties.csv''])"
  let ?r2 = "dict_of (zip ?hdr ['''', '''', '''', ''''])"
  obtain c1 where c1: "example_files ''/data/blank.csv'' = Some c1"
    by (simp add: example_files_def)
  obtain c2 where c2: "example_files ''/data/header_only.xlsx'' = Some c2"
    by (simp add: example_files_def)
  have blank: "\<forall>row \<in> set [?r1, ?r2]. clean_str (row ''runID'') = None"
    using example_blank_ids by simp
  note csv = C10_no_entries_raises
               [of "''/data/blank.csv''" example_lib example_files "''Europe/Berlin''"
                   "''test runs''" example_db c1 ?hdr "[?r1, ?r2]" "''runID''"]
  from csv [THEN conjunct2, THEN conjunct1] c1 example_blank_reader [OF c1]
       example_blank_headers blank
  have p1: "parse_registry_csv example_lib example_files ''/data/blank.csv'' ''Europe/Berlin''
              = Inr []"
    by blast
  from csv [THEN conjunct1] p1 example_registry_paths(1)
  have i1: "import_run_registry example_lib example_files example_db ''/data/blank.csv''
              ''test runs'' ''Europe/Berlin''
            = (example_db, Inl (RegistryImportError
                                  (''No registry rows found in '' @ path_str ''/data/blank.csv'')))"
    by blast
  note xlsx = C10_no_entries_raises
                [of "''/data/header_only.xlsx''" example_lib example_files "''Europe/Berlin''"
                    "''test runs''" example_db c2 _ _ _ "[''runID'', ''test status'', ''log file'']"]
  from xlsx [THEN conjunct2, THEN conjunct2] c2 example_header_only [OF c2]
       example_header_only_valid
  have p2: "parse_registry_xlsx example_lib example_files ''/data/header_only.xlsx''
              ''test runs'' ''Europe/Berlin'' = Inr []"
    by blast
  from xlsx [THEN conjunct1] p2 example_registry_paths(2)
  have i2: "import_run_registry example_lib example_files example_db ''/data/header_only.xlsx''
              ''test runs'' ''Europe/Berlin''
            = (example_db, Inl (RegistryImportError
                                  (''No registry rows found in ''
                                   @ path_str ''/data/header_only.xlsx'')))"
    by blast
  from i1 i2 show ?thesis
    by (simp add: example_registry_paths)
qed

section \<open>Calendar arithmetic\<close>











section \<open>Timestamp normalisation\<close>













lemma first_some_all_None: "\<forall>x \<in> set xs. f x = None \<Longrightarrow> first_some (map f xs) = None"
  by (induction xs) simp_all

text \<open>
  C4 (as the code has it). A timestamp that fails every parsing attempt of the registry
  import is returned unchanged when the default zone is known; the zone is looked up
  before any parsing, so with an unknown zone the registry import raises its error for
  every timestamp that is not null. The ingest raises its error for every timestamp that
  \<^verbatim>\<open>fromisoformat\<close> rejects, whatever the zone.
\<close>

theorem C4_timestamp_failure_asymmetry:
  "((lib_float lib v = None \<or> (\<exists>x. lib_float lib v = Some x \<and> x \<le> 1000))
      \<and> (\<forall>fmt \<in> set registry_formats. lib_strptime lib v fmt = None)
      \<and> lib_fromisoformat lib v = None \<longrightarrow>
      registry_normalize_timestamp lib (Some v) default_tz =
        (if lib_tzdata lib default_tz = None
         then Inl (RegistryImportError (''Unknown timezone: '' @ default_tz))
         else Inr (Some v)))
   \<and> (lib_fromisoformat lib (if endswith v ''Z'' then replace_char CHR ''Z'' ''+00:00'' v else v)
         = None \<longrightarrow>
      ingest_normalize_timestamp lib (Some v) default_tz path =
        Inl (IngestError (''Invalid timestamp '' @ quoted v @ '' in '' @ path_str path)))"
proof (intro conjI impI)
  assume a: "(lib_float lib v = None \<or> (\<exists>x. lib_float lib v = Some x \<and> x \<le> 1000))
      \<and> (\<forall>fmt \<in> set registry_formats. lib_strptime lib v fmt = None)
      \<and> lib_fromisoformat lib v = None"
  then have all: "\<forall>fmt \<in> set registry_formats. lib_strptime lib v fmt = None"
    and iso: "lib_fromisoformat lib v = None"
    by simp_all
  have fmts: "first_some (map (lib_strptime lib v) registry_formats) = None"
    using all by (rule first_some_all_None)
  have soft: "parse_formats_and_iso lib tz v = v" for tz
    by (simp add: parse_formats_and_iso_def fmts iso)
  from a have d: "lib_float lib v = None \<or> (\<exists>x. lib_float lib v = Some x \<and> x \<le> 1000)"
    by (rule conjunct1)
  then show "registry_normalize_timestamp lib (Some v) default_tz =
        (if lib_tzdata lib default_tz = None
         then Inl (RegistryImportError (''Unknown timezone: '' @ default_tz))
         else Inr (Some v))"
  proof (elim disjE exE conjE)
    assume "lib_float lib v = None"
    then show ?thesis
      by (simp add: registry_normalize_timestamp_def registry_tz_from_name_def sum_bind_def soft
            split: option.splits)
  next
    fix x
    assume "lib_float lib v = Some x" and "x \<le> 1000"
    then show ?thesis
      by (simp add: registry_normalize_timestamp_def registry_tz_from_name_def sum_bind_def soft
            split: option.splits)
  qed
next
  assume "lib_fromisoformat lib (if endswith v ''Z'' then replace_char CHR ''Z'' ''+00:00'' v else v)
            = None"
  then show "ingest_normalize_timestamp lib (Some v) default_tz path =
        Inl (IngestError (''Invalid timestamp '' @ quoted v @ '' in '' @ path_str path))"
    by (simp add: ingest_normalize_timestamp_def)
qed

lemma example_garbage:
  "lib_float example_lib ''garbage'' = None"
  "\<forall>fmt \<in> set registry_formats. lib_strptime example_lib ''garbage'' fmt = None"
  "lib_fromisoformat example_lib ''garbage'' = None"
  "\<not> endswith ''garbage'' ''Z''"
  "lib_tzdata example_lib ''Europe/Berlin'' \<noteq> None"
  "lib_tzdata example_lib ''Mars/Olympus'' = None"
  "path_str ''/data/ties.csv'' = ''/data/ties.csv''"
  by code_simp+

theorem C4_timestamp_failure_asymmetry_witness:
  "registry_normalize_timestamp example_lib (Some ''garbage'') ''Europe/Berlin''
     = Inr (Some ''garbage'')
   \<and> ingest_normalize_timestamp example_lib (Some ''garbage'') ''Europe/Berlin'' ''/data/ties.csv''
     = Inl (IngestError (''Invalid timestamp '' @ quoted ''garbage'' @ '' in /data/ties.csv''))
   \<and> ingest_normalize_timestamp example_lib (Some ''garbage'') ''Mars/Olympus'' ''/data/ties.csv''
     = Inl (IngestError (''Invalid timestamp '' @ quoted ''garbage'' @ '' in /data/ties.csv''))"
proof -
  note c4 = C4_timestamp_failure_asymmetry [of example_lib "''garbage''"]
  from c4 [of "''Europe/Berlin''", THEN conjunct1] example_garbage(1,2,3,5)
  have r: "registry_normalize_timestamp example_lib (Some ''garbage'') ''Europe/Berlin''
             = Inr (Some ''garbage'')"
    by simp
  from c4 [of "''Europe/Berlin''" "''/data/ties.csv''", THEN conjunct2] example_garbage(3,4,7)
  have i1: "ingest_normalize_timestamp example_lib (Some ''garbage'') ''Europe/Berlin''
              ''/data/ties.csv''
            = Inl (IngestError (''Invalid timestamp '' @ quoted ''garbage'' @ '' in /data/ties.csv''))"
    by simp
  from c4 [of "''Mars/Olympus''" "''/data/ties.csv''", THEN conjunct2] example_garbage(3,4,7)
  have i2: "ingest_normalize_timestamp example_lib (Some ''garbage'') ''Mars/Olympus''
              ''/data/ties.csv''
            = Inl (IngestError (''Invalid timestamp '' @ quoted ''garbage'' @ '' in /data/ties.csv''))"
    by simp
  from r i1 i2 show ?thesis by blast
qed

text \<open>
  C4 as stated fails when the default zone is unknown: the timestamp below fails every
  parsing attempt, and the registry import raises.
\<close>

theorem C4_unknown_zone_counterexample:
  "lib_float example_lib ''garbage'' = None
   \<and> lib_strptime example_lib ''garbage'' ''%Y-%m-%d %H:%M:%S'' = None
   \<and> lib_strptime example_lib ''garbage'' ''%Y-%m-%d %H:%M'' = None
   \<and> lib_strptime example_lib ''garbage'' ''%Y-%m-%d'' = None
   \<and> lib_fromisoformat example_lib ''garbage'' = None
   \<and> registry_normalize_timestamp example_lib (Some ''garbage'') ''Mars/Olympus''
       = Inl (RegistryImportError ''Unknown timezone: Mars/Olympus'')"
  by code_simp

end
